theory Spec2Isabelle
  imports Main "HOL-Library.Word"
begin

unbundle bit_operations_syntax

section \<open>The qsd8k graphics buffer allocator\<close>

text \<open>
  A shallow embedding of \<^verbatim>\<open>libgralloc-qsd8k/gralloc.cpp\<close> and of the handle type of
  \<^verbatim>\<open>libgralloc/gralloc_priv.h\<close>. The target is 32-bit ARM: \<^verbatim>\<open>int\<close>, \<^verbatim>\<open>size_t\<close>,
  \<^verbatim>\<open>intptr_t\<close>, \<^verbatim>\<open>unsigned long\<close> and pointers are all 32-bit words. Addition,
  subtraction and multiplication wrap around; a signed comparison of the source is \<open><s\<close> or
  \<open>\<le>s\<close>. A result \<open>None\<close> of a function stands for undefined behaviour of the source (a
  null dereference, a division by zero, a shift by 32 or more, a write to bytes that are
  not mapped, a read of storage that has been released).
  Calls are sequential: the mutexes of the source are not modelled, and logging has no
  effect.
\<close>

type_synonym word32 = "32 word"

subsection \<open>What the platform headers define\<close>

text \<open>
  The constants of the Android and Linux headers (\<^verbatim>\<open>hardware/gralloc.h\<close>,
  \<^verbatim>\<open>system/graphics.h\<close>, \<^verbatim>\<open>errno.h\<close>, \<^verbatim>\<open>asm/page.h\<close>, \<^verbatim>\<open>cutils/native_handle.h\<close>) are
  not part of the repository. They are the fields of a record that every function takes,
  so nothing is assumed about their values beyond what a theorem states.
\<close>

record platform =
  PAGE_SIZE :: word32
  EINVAL :: word32
  ENOMEM :: word32
  sizeof_native_handle :: word32
  GRALLOC_USAGE_HW_TEXTURE :: word32
  GRALLOC_USAGE_HW_RENDER :: word32
  GRALLOC_USAGE_HW_2D :: word32
  GRALLOC_USAGE_HW_FB :: word32
  HAL_PIXEL_FORMAT_RGBA_8888 :: word32
  HAL_PIXEL_FORMAT_BGRA_8888 :: word32
  HAL_PIXEL_FORMAT_RGB_565 :: word32
  HAL_PIXEL_FORMAT_RGBA_5551 :: word32
  HAL_PIXEL_FORMAT_RGBA_4444 :: word32

text \<open>The values of the Android 4 headers on 32-bit ARM Linux, for concrete runs.\<close>

definition android_arm :: platform where
  "android_arm =
     \<lparr> PAGE_SIZE = 4096, EINVAL = 22, ENOMEM = 12, sizeof_native_handle = 12,
       GRALLOC_USAGE_HW_TEXTURE = 0x100, GRALLOC_USAGE_HW_RENDER = 0x200,
       GRALLOC_USAGE_HW_2D = 0x400, GRALLOC_USAGE_HW_FB = 0x1000,
       HAL_PIXEL_FORMAT_RGBA_8888 = 1, HAL_PIXEL_FORMAT_BGRA_8888 = 5,
       HAL_PIXEL_FORMAT_RGB_565 = 4, HAL_PIXEL_FORMAT_RGBA_5551 = 6,
       HAL_PIXEL_FORMAT_RGBA_4444 = 7 \<rparr>"

subsection \<open>gralloc_priv.h: the handle\<close>

text \<open>
  Modelled from the spec: the \<^verbatim>\<open>BUFFER_TYPE_*\<close> constants that \<^verbatim>\<open>gralloc.cpp\<close> uses. Their
  declaration is not in the two source files. The spec calls them the backing-store kind
  of a handle (primary pool, two secondary pools, scanout slot); they are four distinct
  tags.
\<close>

datatype buffer_type =
  BUFFER_TYPE_GPU0 | BUFFER_TYPE_GPU1 | BUFFER_TYPE_FB | BUFFER_TYPE_PMEM

text \<open>
  Modelled from the spec: the fields \<open>bufferType\<close> and \<open>phys\<close>, which \<^verbatim>\<open>gralloc.cpp\<close>
  reads and writes (\<^verbatim>\<open>hnd->bufferType\<close>, \<^verbatim>\<open>hnd->phys\<close>) and \<^verbatim>\<open>gralloc_priv.h\<close> does not
  declare; the spec lists both, the backing-store kind and the physical address, among
  the attributes of a handle. The other fields are those of
  \<^verbatim>\<open>struct private_handle_t : public native_handle\<close>: the three fields of the
  \<^verbatim>\<open>native_handle\<close> header, then the fields of the handle itself.
\<close>

record private_handle_t =
  version :: word32
  numFds :: word32
  numInts :: word32
  fd :: word32
  magic :: word32
  flags :: word32
  size' :: word32
  offset :: word32
  base :: word32
  lockState :: word32
  writeOwner :: word32
  pid :: word32
  bufferType :: buffer_type
  phys :: word32

definition PRIV_FLAGS_FRAMEBUFFER :: word32 where
  "PRIV_FLAGS_FRAMEBUFFER = 0x00000001"

definition PRIV_FLAGS_USES_PMEM :: word32 where
  "PRIV_FLAGS_USES_PMEM = 0x00000002"

definition LOCK_STATE_MAPPED :: word32 where
  "LOCK_STATE_MAPPED = push_bit 30 1"

definition sNumInts :: word32 where
  "sNumInts = 8"

definition sNumFds :: word32 where
  "sNumFds = 1"

definition sMagic :: word32 where
  "sMagic = 0x3141592"

definition roundUpToPageSize :: "platform \<Rightarrow> word32 \<Rightarrow> word32" where
  "roundUpToPageSize P x = (x + (PAGE_SIZE P - 1)) AND NOT (PAGE_SIZE P - 1)"

text \<open>
  Modelled from the spec: the fourth argument of the constructor, the buffer type, with
  which \<^verbatim>\<open>gralloc.cpp\<close> calls it; \<^verbatim>\<open>gralloc_priv.h\<close> has the constructor
  \<^verbatim>\<open>private_handle_t(fd, size, flags)\<close>. This is that constructor, which records the
  backing-store kind as well; \<^verbatim>\<open>phys\<close> starts at 0 and every caller assigns it.
  \<open>getpid\<close> is the value that \<^verbatim>\<open>getpid()\<close> returned.
\<close>

definition new_private_handle_t ::
  "platform \<Rightarrow> word32 \<Rightarrow> word32 \<Rightarrow> word32 \<Rightarrow> buffer_type \<Rightarrow> word32 \<Rightarrow> private_handle_t" where
  "new_private_handle_t P fd0 size0 flags0 bufferType0 getpid =
     \<lparr> version = sizeof_native_handle P, numFds = sNumFds, numInts = sNumInts,
       fd = fd0, magic = sMagic, flags = flags0, size' = size0, offset = 0,
       base = 0, lockState = 0, writeOwner = 0, pid = getpid,
       bufferType = bufferType0, phys = 0 \<rparr>"

text \<open>The destructor \<^verbatim>\<open>~private_handle_t()\<close>: what the object holds once it has run.\<close>

definition destructor_private_handle_t :: "private_handle_t \<Rightarrow> private_handle_t" where
  "destructor_private_handle_t hnd = hnd\<lparr>magic := 0\<rparr>"

text \<open>
  What a pointer to a handle points to: an object, or storage that has been released,
  from which nothing can be read.
\<close>

datatype memory = Object private_handle_t | Released

text \<open>\<^verbatim>\<open>operator delete\<close> releases the storage of the object, whatever the object holds.\<close>

fun operator_delete :: "private_handle_t \<Rightarrow> memory" where
  "operator_delete obj = Released"

text \<open>
  The expression \<^verbatim>\<open>delete hnd\<close>: the destructor runs, then the storage is released.
\<close>

definition delete_private_handle_t :: "private_handle_t \<Rightarrow> memory" where
  "delete_private_handle_t hnd = operator_delete (destructor_private_handle_t hnd)"

definition usesPhysicallyContiguousMemory :: "private_handle_t \<Rightarrow> bool" where
  "usesPhysicallyContiguousMemory hnd \<longleftrightarrow> flags hnd AND PRIV_FLAGS_USES_PMEM \<noteq> 0"

text \<open>
  \<^verbatim>\<open>validate(const native_handle* h)\<close>: \<open>None\<close> is the null pointer. The result is 0 or
  \<^verbatim>\<open>-EINVAL\<close>.
\<close>

definition validate :: "platform \<Rightarrow> private_handle_t option \<Rightarrow> word32" where
  "validate P h =
     (case h of
        None \<Rightarrow> - EINVAL P
      | Some hnd \<Rightarrow>
          if version hnd \<noteq> sizeof_native_handle P \<or> numInts hnd \<noteq> sNumInts
             \<or> numFds hnd \<noteq> sNumFds
          then - EINVAL P
          else if magic hnd \<noteq> sMagic then - EINVAL P
          else 0)"

text \<open>
  \<open>validate\<close> called with a pointer whose target may have been released: it reads the
  fields of the target, so the call is undefined when the storage is released.
\<close>

definition validate_memory :: "platform \<Rightarrow> memory option \<Rightarrow> word32 option" where
  "validate_memory P p =
     (case p of
        None \<Rightarrow> Some (validate P None)
      | Some (Object hnd) \<Rightarrow> Some (validate P (Some hnd))
      | Some Released \<Rightarrow> None)"

definition dynamicCast :: "platform \<Rightarrow> private_handle_t option \<Rightarrow> private_handle_t option" where
  "dynamicCast P h = (if validate P h = 0 then h else None)"

subsection \<open>The environment\<close>

text \<open>
  Everything that \<^verbatim>\<open>gralloc.cpp\<close> calls and does not define is a call to the environment:
  the system calls, \<^verbatim>\<open>ashmem_create_region\<close>, the two \<^verbatim>\<open>SimpleBestFitAllocator\<close>
  objects (\<^verbatim>\<open>allocator.h\<close>), \<^verbatim>\<open>gralloc_unregister_buffer\<close> and
  \<^verbatim>\<open>mapFrameBufferLocked\<close>. Each call made is appended to a trace together with the
  value it returned. The environment answers a call with a value that may depend on the
  whole trace so far, so a statement for every environment covers every behaviour of the
  kernel, of the allocators and of the collaborators.
\<close>

datatype allocator = sAllocator | sGPUAllocator

datatype call =
    Open string \<comment> \<open>\<^verbatim>\<open>open(path, O_RDWR, 0)\<close>\<close>
  | Mmap word32 word32 \<comment> \<open>\<^verbatim>\<open>mmap(0, length, PROT_READ|PROT_WRITE, MAP_SHARED, fd, 0)\<close>\<close>
  | Ioctl_PMEM_GET_PHYS word32 \<comment> \<open>\<^verbatim>\<open>ioctl(fd, PMEM_GET_PHYS, &region)\<close>\<close>
  | Ioctl_PMEM_CONNECT word32 word32 \<comment> \<open>\<^verbatim>\<open>ioctl(fd, PMEM_CONNECT, master_fd)\<close>\<close>
  | Ioctl_PMEM_MAP word32 word32 word32 \<comment> \<open>\<^verbatim>\<open>ioctl(fd, PMEM_MAP, &sub)\<close>, \<^verbatim>\<open>sub = {offset, size}\<close>\<close>
  | Ashmem_create_region string word32
  | Close word32
  | Dup word32
  | Getpid
  | Memset word32 word32 \<comment> \<open>\<^verbatim>\<open>memset(address, 0, length)\<close>\<close>
  | Allocate allocator word32 \<comment> \<open>\<^verbatim>\<open>a.allocate(size)\<close>\<close>
  | Deallocate allocator word32 \<comment> \<open>\<^verbatim>\<open>a.deallocate(offset)\<close>\<close>
  | Unregister_buffer private_handle_t \<comment> \<open>\<^verbatim>\<open>gralloc_unregister_buffer(m, handle)\<close>\<close>
  | MapFrameBufferLocked

type_synonym event = "call \<times> word32"

text \<open>
  What a call gives back: its return value, the value of \<^verbatim>\<open>errno\<close> afterwards, and the
  value it stored through its output argument (\<^verbatim>\<open>region.offset\<close> of \<^verbatim>\<open>PMEM_GET_PHYS\<close>).
\<close>

record reply =
  ret :: word32
  errno_after :: word32
  out :: word32

text \<open>
  \<^verbatim>\<open>struct private_module_t\<close>, the fields that \<^verbatim>\<open>gralloc.cpp\<close> uses: \<open>None\<close> is the
  null \<^verbatim>\<open>framebuffer\<close> pointer; \<open>finfo_line_length\<close> and \<open>info_yres\<close> are
  \<^verbatim>\<open>finfo.line_length\<close> and \<^verbatim>\<open>info.yres\<close>.
\<close>

record private_module_t =
  framebuffer :: "private_handle_t option"
  numBuffers :: word32
  bufferMask :: word32
  pmem_master :: word32
  pmem_master_base :: word32
  master_phys :: word32
  gpu_master :: word32
  gpu_master_base :: word32
  finfo_line_length :: word32
  info_yres :: word32

text \<open>\<^verbatim>\<open>HAL_MODULE_INFO_SYM\<close>, the module as the source initialises it.\<close>

definition HAL_MODULE_INFO_SYM :: private_module_t where
  "HAL_MODULE_INFO_SYM =
     \<lparr> framebuffer = None, numBuffers = 0, bufferMask = 0, pmem_master = - 1,
       pmem_master_base = 0, master_phys = 0, gpu_master = - 1, gpu_master_base = 0,
       finfo_line_length = 0, info_yres = 0 \<rparr>"

text \<open>
  Modelled from the spec: \<^verbatim>\<open>mapFrameBufferLocked\<close>, which \<^verbatim>\<open>gralloc_priv.h\<close> declares
  and neither source file defines. The spec has it as the collaborator that maps the
  display surface and either fails or yields the surface (base address, sizes, buffer
  count), so it is a function of the environment that returns an error code and the
  module as it leaves it.
  \<open>kernel\<close> answers the calls.
  \<open>allocator_size\<close> is the accessor \<^verbatim>\<open>size()\<close> of an allocator object, which makes
  no call and leaves \<^verbatim>\<open>errno\<close> alone.
  \<open>uninitialized\<close> is the indeterminate value of the local \<^verbatim>\<open>int bufferType\<close> of
  \<^verbatim>\<open>gralloc_alloc_buffer\<close> on the path that never assigns it.
  \<open>writable tr a len\<close> says whether, after the calls of \<open>tr\<close>, the \<open>len\<close> bytes at
  address \<open>a\<close> are mapped in the process and can be written.
\<close>

record environment =
  kernel :: "event list \<Rightarrow> call \<Rightarrow> reply"
  allocator_size :: "allocator \<Rightarrow> word32"
  mapFrameBufferLocked :: "event list \<Rightarrow> private_module_t \<Rightarrow> word32 \<times> private_module_t"
  uninitialized :: "event list \<Rightarrow> buffer_type"
  writable :: "event list \<Rightarrow> word32 \<Rightarrow> word32 \<Rightarrow> bool"

text \<open>The state of the process: the module, \<^verbatim>\<open>errno\<close>, and the calls made so far.\<close>

record state =
  module :: private_module_t
  errno :: word32
  trace :: "event list"

definition syscall :: "environment \<Rightarrow> call \<Rightarrow> state \<Rightarrow> word32 \<times> state" where
  "syscall K c s =
     (let r = kernel K (trace s) c
      in (ret r, s\<lparr>errno := errno_after r, trace := trace s @ [(c, ret r)]\<rparr>))"

definition MAP_FAILED :: word32 where
  "MAP_FAILED = - 1"

text \<open>
  \<^verbatim>\<open>memset((void *)a, 0, len)\<close> writes through the pointer: it is undefined when the
  pointer is null or the bytes are not writable. Otherwise it is recorded like the other
  calls.
\<close>

definition memset :: "environment \<Rightarrow> word32 \<Rightarrow> word32 \<Rightarrow> state \<Rightarrow> state option" where
  "memset K a len s =
     (if a = 0 \<or> \<not> writable K (trace s) a len then None
      else Some (snd (syscall K (Memset a len) s)))"

text \<open>\<^verbatim>\<open>struct gralloc_context_t\<close>: the device, with its one private field.\<close>

record gralloc_context_t =
  context_bufferType :: buffer_type

subsection \<open>gralloc.cpp\<close>

definition device_path :: "buffer_type \<Rightarrow> string option" where
  "device_path type =
     (case type of
        BUFFER_TYPE_GPU0 \<Rightarrow> Some ''/dev/pmem_gpu0''
      | BUFFER_TYPE_GPU1 \<Rightarrow> Some ''/dev/pmem_gpu1''
      | BUFFER_TYPE_PMEM \<Rightarrow> Some ''/dev/pmem''
      | BUFFER_TYPE_FB \<Rightarrow> None)"

text \<open>
  The chain \<^verbatim>\<open>if (type == BUFFER_TYPE_GPU0) fd = open("/dev/pmem_gpu0", O_RDWR, 0); else
  if ...\<close>, which both \<^verbatim>\<open>init_pmem_area\<close> and \<^verbatim>\<open>gralloc_alloc_buffer\<close> have. For a
  type that is none of the three pools no device is opened and the descriptor stays \<open>-1\<close>,
  the value that both functions initialise it with.
\<close>

definition open_device :: "environment \<Rightarrow> buffer_type \<Rightarrow> state \<Rightarrow> word32 \<times> state" where
  "open_device K type s =
     (case device_path type of
        None \<Rightarrow> (- 1, s)
      | Some path \<Rightarrow> syscall K (Open path) s)"

text \<open>
  \<^verbatim>\<open>init_pmem_area\<close>. \<^verbatim>\<open>master_heap_size\<close> is assigned together with the descriptor
  and read only when a device was opened.
\<close>

definition init_pmem_area :: "environment \<Rightarrow> buffer_type \<Rightarrow> state \<Rightarrow> word32 \<times> state" where
  "init_pmem_area K type s0 =
     (let (master_fd, s1) = open_device K type s0;
          master_heap_size =
            allocator_size K (if type = BUFFER_TYPE_PMEM then sAllocator else sGPUAllocator)
      in if 0 \<le>s master_fd then
           let (base0, s2) = syscall K (Mmap master_heap_size master_fd) s1;
               (err, base1, master_fd1, s3) =
                 (if base0 = MAP_FAILED
                  then let e = - errno s2;
                           (_, sc) = syscall K (Close master_fd) s2
                       in (e, 0, - 1, sc)
                  else (0, base0, master_fd, s2))
           in if type = BUFFER_TYPE_PMEM then
                (err, s3\<lparr>module := (module s3)\<lparr>pmem_master := master_fd1,
                                                  pmem_master_base := base1\<rparr>\<rparr>)
              else
                let s4 = s3\<lparr>module := (module s3)\<lparr>gpu_master := master_fd1,
                                                     gpu_master_base := base1\<rparr>\<rparr>;
                    region_offset = out (kernel K (trace s4) (Ioctl_PMEM_GET_PHYS master_fd1));
                    (err1, s5) = syscall K (Ioctl_PMEM_GET_PHYS master_fd1) s4
                in if err1 <s 0 then (err1, s5)
                   else (err1, s5\<lparr>module := (module s5)\<lparr>master_phys := region_offset\<rparr>\<rparr>)
         else (- errno s1, s1))"

text \<open>
  The end of \<^verbatim>\<open>gralloc_alloc_buffer\<close> (\<^verbatim>\<open>if (err == 0) { ... } return err;\<close>): the handle
  is built and stored through \<^verbatim>\<open>pHandle\<close> only when \<^verbatim>\<open>err\<close> is 0. The second component
  of the result is the handle stored, if one was.
\<close>

definition alloc_buffer_return ::
  "platform \<Rightarrow> environment \<Rightarrow> word32 \<Rightarrow> word32 \<Rightarrow> word32 \<Rightarrow> word32 \<Rightarrow> buffer_type \<Rightarrow> word32 \<Rightarrow> word32
     \<Rightarrow> word32 \<Rightarrow> state \<Rightarrow> word32 \<times> private_handle_t option \<times> state" where
  "alloc_buffer_return P K err fd0 size0 flags0 bufferType0 base0 offset0 lockState0 s =
     (if err = 0 then
        let (p, s1) = syscall K Getpid s;
            hnd = new_private_handle_t P fd0 size0 flags0 bufferType0 p;
            hnd1 = hnd\<lparr>offset := offset0, base := base0 + offset0, lockState := lockState0,
                       phys := (if bufferType0 = BUFFER_TYPE_GPU1
                                then master_phys (module s1) + offset0 else 0)\<rparr>
        in (err, Some hnd1, s1)
      else (err, None, s))"

text \<open>
  The label \<^verbatim>\<open>try_ashmem\<close> and what follows it. It is reached with \<^verbatim>\<open>err\<close> 0 and with
  \<^verbatim>\<open>base\<close>, \<^verbatim>\<open>offset\<close> and \<^verbatim>\<open>lockState\<close> still 0, both directly and by the \<^verbatim>\<open>goto\<close>.
\<close>

definition try_ashmem ::
  "platform \<Rightarrow> environment \<Rightarrow> word32 \<Rightarrow> word32 \<Rightarrow> buffer_type \<Rightarrow> state
     \<Rightarrow> word32 \<times> private_handle_t option \<times> state" where
  "try_ashmem P K size0 flags0 bufferType0 s =
     (let (fd0, s1) = syscall K (Ashmem_create_region ''Buffer'' size0) s;
          err = (if fd0 <s 0 then - errno s1 else 0)
      in alloc_buffer_return P K err fd0 size0 flags0 bufferType0 0 0 0 s1)"

definition master_fd_of :: "buffer_type \<Rightarrow> private_module_t \<Rightarrow> word32" where
  "master_fd_of bufferType0 m =
     (if bufferType0 = BUFFER_TYPE_PMEM then pmem_master m else gpu_master m)"

text \<open>
  Lines 277 to 300 of \<^verbatim>\<open>gralloc_alloc_buffer\<close>: the master descriptor of the pool is read,
  the pool is initialised when the descriptor is \<open>-1\<close>, and the descriptor is read again.
  The result is \<^verbatim>\<open>err\<close>, the descriptor read again, and the state.
\<close>

definition open_master :: "environment \<Rightarrow> buffer_type \<Rightarrow> state \<Rightarrow> word32 \<times> word32 \<times> state" where
  "open_master K bufferType0 s =
     (let master_fd = master_fd_of bufferType0 (module s);
          (err, s1) = (if master_fd = - 1 then init_pmem_area K bufferType0 s else (0, s))
      in (err, master_fd_of bufferType0 (module s1), s1))"

text \<open>
  The body of \<^verbatim>\<open>if (master_fd >= 0) { ... }\<close> in \<^verbatim>\<open>gralloc_alloc_buffer\<close> (lines 302 to
  344) and the return that follows it: an extent is allocated in the pool; then a second
  descriptor is opened on the pool device, connected to the master descriptor, and the
  extent is mapped through it.
\<close>

definition alloc_from_pool ::
  "platform \<Rightarrow> environment \<Rightarrow> word32 \<Rightarrow> word32 \<Rightarrow> buffer_type \<Rightarrow> word32 \<Rightarrow> state
     \<Rightarrow> word32 \<times> private_handle_t option \<times> state" where
  "alloc_from_pool P K size1 flags0 bufferType0 master_fd s1 =
     (let a = (if bufferType0 = BUFFER_TYPE_PMEM then sAllocator else sGPUAllocator);
          base0 = (if bufferType0 = BUFFER_TYPE_PMEM
                   then pmem_master_base (module s1)
                   else gpu_master_base (module s1));
          (offset0, s2) = syscall K (Allocate a size1) s1;
          lockState0 = LOCK_STATE_MAPPED
      in if offset0 <s 0 then
           alloc_buffer_return P K (- ENOMEM P) (- 1) size1 flags0 bufferType0
             base0 offset0 lockState0 s2
         else
           let (fd0, s3) = open_device K bufferType0 s2;
               (r, s4) = syscall K (Ioctl_PMEM_CONNECT fd0 master_fd) s3;
               (err, s5) =
                 (if r <s 0 then (- errno s4, s4)
                  else syscall K (Ioctl_PMEM_MAP fd0 offset0 size1) s4)
           in if err <s 0 then
                let (_, s6) = syscall K (Close fd0) s5;
                    (_, s7) = syscall K (Deallocate a offset0) s6
                in alloc_buffer_return P K err (- 1) size1 flags0 bufferType0
                     base0 offset0 lockState0 s7
              else
                alloc_buffer_return P K err fd0 size1 flags0 bufferType0
                  base0 offset0 lockState0 s5)"

text \<open>
  The choice at the head of \<^verbatim>\<open>gralloc_alloc_buffer\<close> (lines 256 to 265): the flags of
  the handle and the buffer type. On the last path the source leaves \<^verbatim>\<open>bufferType\<close>
  unassigned.
\<close>

definition choose_backing ::
  "platform \<Rightarrow> environment \<Rightarrow> gralloc_context_t \<Rightarrow> word32 \<Rightarrow> state \<Rightarrow> word32 \<times> buffer_type" where
  "choose_backing P K dev usage s =
     (if usage AND (GRALLOC_USAGE_HW_2D P OR GRALLOC_USAGE_HW_RENDER P) \<noteq> 0
      then (PRIV_FLAGS_USES_PMEM, context_bufferType dev)
      else if usage AND GRALLOC_USAGE_HW_TEXTURE P \<noteq> 0
      then (PRIV_FLAGS_USES_PMEM, BUFFER_TYPE_PMEM)
      else (0, uninitialized K (trace s)))"

definition gralloc_alloc_buffer ::
  "platform \<Rightarrow> environment \<Rightarrow> gralloc_context_t \<Rightarrow> word32 \<Rightarrow> word32 \<Rightarrow> state
     \<Rightarrow> word32 \<times> private_handle_t option \<times> state" where
  "gralloc_alloc_buffer P K dev size0 usage s =
     (let size1 = roundUpToPageSize P size0;
          (flags0, bufferType0) = choose_backing P K dev usage s
      in if flags0 AND PRIV_FLAGS_USES_PMEM = 0 then
           try_ashmem P K size1 flags0 bufferType0 s
         else
           let (err0, master_fd, s1) = open_master K bufferType0 s
           in if 0 \<le>s master_fd then
                alloc_from_pool P K size1 flags0 bufferType0 master_fd s1
              else if usage AND GRALLOC_USAGE_HW_2D P = 0 then
                try_ashmem P K size1 (flags0 AND NOT PRIV_FLAGS_USES_PMEM) bufferType0 s1
              else
                alloc_buffer_return P K err0 (- 1) size1 flags0 bufferType0 0 0 0 s1)"

text \<open>
  The loop of \<^verbatim>\<open>gralloc_alloc_framebuffer_locked\<close> that finds a free slot. \<open>bufferMask0\<close>
  is the local copy that the loop tests, \<open>m_bufferMask\<close> is \<^verbatim>\<open>m->bufferMask\<close>,
  which it updates. The result is \<^verbatim>\<open>m->bufferMask\<close> and \<^verbatim>\<open>vaddr\<close> after the loop.
\<close>

function find_free_slot ::
  "word32 \<Rightarrow> word32 \<Rightarrow> word32 \<Rightarrow> word32 \<Rightarrow> word32 \<Rightarrow> word32 \<Rightarrow> word32 \<times> word32" where
  "find_free_slot bufferMask0 numBuffers0 bufferSize i m_bufferMask vaddr =
     (if i < numBuffers0 then
        (if bufferMask0 AND push_bit (unat i) 1 = 0
         then (m_bufferMask OR push_bit (unat i) 1, vaddr)
         else find_free_slot bufferMask0 numBuffers0 bufferSize (i + 1) m_bufferMask (vaddr + bufferSize))
      else (m_bufferMask, vaddr))"
  by pat_completeness auto
termination
proof (relation "measure (\<lambda>(bufferMask0, numBuffers0, bufferSize, i, m_bufferMask, vaddr).
                   unat numBuffers0 - unat i)")
  show "wf (measure (\<lambda>(bufferMask0 :: word32, numBuffers0 :: word32, bufferSize :: word32,
                      i :: word32, m_bufferMask :: word32, vaddr :: word32).
               unat numBuffers0 - unat i))"
    by simp
next
  fix bufferMask0 numBuffers0 bufferSize i m_bufferMask vaddr :: word32
  assume less: "i < numBuffers0"
  then have "unat i < unat numBuffers0"
    by (simp add: word_less_nat_alt)
  moreover have "unat numBuffers0 < 2 ^ 32"
    using unsigned_less [of numBuffers0] by simp
  ultimately have "unat i + 1 < 2 ^ 32"
    by simp
  then have "unat (i + 1) = Suc (unat i)"
    by (simp add: unat_word_ariths)
  with less show "((bufferMask0, numBuffers0, bufferSize, i + 1, m_bufferMask, vaddr + bufferSize),
          (bufferMask0, numBuffers0, bufferSize, i, m_bufferMask, vaddr))
        \<in> measure (\<lambda>(bufferMask0, numBuffers0, bufferSize, i, m_bufferMask, vaddr).
                     unat numBuffers0 - unat i)"
    by (simp add: word_less_nat_alt)
qed

declare find_free_slot.simps [simp del]

definition map_framebuffer :: "environment \<Rightarrow> state \<Rightarrow> word32 \<times> state" where
  "map_framebuffer K s =
     (let (err, m) = mapFrameBufferLocked K (trace s) (module s)
      in (err, s\<lparr>module := m, trace := trace s @ [(MapFrameBufferLocked, err)]\<rparr>))"

text \<open>
  The head of \<^verbatim>\<open>gralloc_alloc_framebuffer_locked\<close> (lines 119 to 126): the surface is
  mapped when \<^verbatim>\<open>m->framebuffer\<close> is null. The result is \<^verbatim>\<open>err\<close>, which is 0 when nothing
  had to be mapped, and the state.
\<close>

definition ensure_mapped :: "environment \<Rightarrow> state \<Rightarrow> word32 \<times> state" where
  "ensure_mapped K s =
     (if framebuffer (module s) = None then map_framebuffer K s else (0, s))"

definition gralloc_alloc_framebuffer_locked ::
  "platform \<Rightarrow> environment \<Rightarrow> gralloc_context_t \<Rightarrow> word32 \<Rightarrow> word32 \<Rightarrow> state
     \<Rightarrow> (word32 \<times> private_handle_t option \<times> state) option" where
  "gralloc_alloc_framebuffer_locked P K dev size0 usage s0 =
     (let (err, s) = ensure_mapped K s0
      in if framebuffer (module s0) = None \<and> err <s 0 then Some (err, None, s)
         else
           let bufferMask0 = bufferMask (module s);
               numBuffers0 = numBuffers (module s);
               bufferSize = finfo_line_length (module s) * info_yres (module s)
           in if numBuffers0 = 1 then
                let newUsage = (usage AND NOT (GRALLOC_USAGE_HW_FB P)) OR GRALLOC_USAGE_HW_2D P
                in Some (gralloc_alloc_buffer P K dev bufferSize newUsage s)
              else if 32 \<le> numBuffers0 then None
              else if push_bit (unat numBuffers0) 1 - 1 \<le> bufferMask0 then
                Some (- ENOMEM P, None, s)
              else
                (case framebuffer (module s) of
                   None \<Rightarrow> None
                 | Some fb \<Rightarrow>
                     let vaddr = base fb;
                         (fd0, s1) = syscall K (Dup (fd fb)) s;
                         (p, s2) = syscall K Getpid s1;
                         hnd = new_private_handle_t P fd0 size0
                                 (PRIV_FLAGS_USES_PMEM OR PRIV_FLAGS_FRAMEBUFFER) BUFFER_TYPE_FB p;
                         (m_bufferMask, vaddr1) = find_free_slot bufferMask0 numBuffers0 bufferSize 0
                                            (bufferMask (module s2)) vaddr;
                         s3 = s2\<lparr>module := (module s2)\<lparr>bufferMask := m_bufferMask\<rparr>\<rparr>;
                         hnd1 = hnd\<lparr>base := vaddr1\<rparr>;
                         hnd2 = hnd1\<lparr>offset := vaddr1 - base fb\<rparr>;
                         hnd3 = hnd2\<lparr>phys := phys fb + offset hnd2\<rparr>
                     in Some (0, Some hnd3, s3)))"

definition gralloc_alloc_framebuffer ::
  "platform \<Rightarrow> environment \<Rightarrow> gralloc_context_t \<Rightarrow> word32 \<Rightarrow> word32 \<Rightarrow> state
     \<Rightarrow> (word32 \<times> private_handle_t option \<times> state) option" where
  "gralloc_alloc_framebuffer P K dev size0 usage s =
     gralloc_alloc_framebuffer_locked P K dev size0 usage s"

text \<open>
  \<^verbatim>\<open>gralloc_alloc\<close>. \<open>pHandle\<close> and \<open>pStride\<close> are the two output pointers: \<open>None\<close> is
  the null pointer, \<open>Some v\<close> a pointer to a variable that holds \<open>v\<close> (for \<open>pHandle\<close>
  a handle pointer, itself \<open>None\<close> when null). The result has the two variables as
  the call leaves them.
\<close>

definition bytes_per_pixel :: "platform \<Rightarrow> word32 \<Rightarrow> word32 option" where
  "bytes_per_pixel P format =
     (if format = HAL_PIXEL_FORMAT_RGBA_8888 P \<or> format = HAL_PIXEL_FORMAT_BGRA_8888 P
      then Some 4
      else if format = HAL_PIXEL_FORMAT_RGB_565 P \<or> format = HAL_PIXEL_FORMAT_RGBA_5551 P
              \<or> format = HAL_PIXEL_FORMAT_RGBA_4444 P
      then Some 2
      else None)"

definition gralloc_alloc ::
  "platform \<Rightarrow> environment \<Rightarrow> gralloc_context_t \<Rightarrow> word32 \<Rightarrow> word32 \<Rightarrow> word32 \<Rightarrow> word32
     \<Rightarrow> private_handle_t option option \<Rightarrow> word32 option \<Rightarrow> state
     \<Rightarrow> (word32 \<times> private_handle_t option option \<times> word32 option \<times> state) option" where
  "gralloc_alloc P K dev w h format usage pHandle pStride s =
     (if pHandle = None \<or> pStride = None then Some (- EINVAL P, pHandle, pStride, s)
      else
        (case bytes_per_pixel P format of
           None \<Rightarrow> Some (- EINVAL P, pHandle, pStride, s)
         | Some bpp \<Rightarrow>
            let align = 4;
                bpr = (w * bpp + (align - 1)) AND NOT (align - 1);
                size0 = bpr * h;
                stride = bpr div bpp
            in (case (if usage AND GRALLOC_USAGE_HW_FB P \<noteq> 0
                      then gralloc_alloc_framebuffer P K dev size0 usage s
                      else Some (gralloc_alloc_buffer P K dev size0 usage s)) of
                  None \<Rightarrow> None
                | Some (err, stored, s1) \<Rightarrow>
                    let pHandle1 = (case stored of None \<Rightarrow> pHandle
                                    | Some hnd \<Rightarrow> Some (Some hnd))
                    in (if err <s 0 then Some (err, pHandle1, pStride, s1)
                        else Some (0, pHandle1, Some stride, s1)))))"

text \<open>
  \<^verbatim>\<open>gralloc_free\<close>. The result has what the handle points to when the call returns: the
  object untouched where the call refuses the handle (the handle is a pointer to
  \<^verbatim>\<open>const\<close>), released storage once \<^verbatim>\<open>delete hnd\<close> has run.
\<close>

definition gralloc_free ::
  "platform \<Rightarrow> environment \<Rightarrow> private_handle_t option \<Rightarrow> state
     \<Rightarrow> (word32 \<times> memory option \<times> state) option" where
  "gralloc_free P K handle s =
     (if validate P handle <s 0 then Some (- EINVAL P, map_option Object handle, s)
      else
        (case handle of
           None \<Rightarrow> None
         | Some hnd \<Rightarrow>
            (case (if flags hnd AND PRIV_FLAGS_FRAMEBUFFER \<noteq> 0 then
                     (case framebuffer (module s) of
                        None \<Rightarrow> None
                      | Some fb \<Rightarrow>
                          let bufferSize = finfo_line_length (module s) * info_yres (module s)
                          in if bufferSize = 0 then None
                             else
                               let index = (base hnd - base fb) div bufferSize
                               in if 32 \<le> index then None
                                  else Some (s\<lparr>module := (module s)\<lparr>bufferMask :=
                                         bufferMask (module s) AND NOT (push_bit (unat index) 1)\<rparr>\<rparr>))
                   else if 0 \<le>s fd hnd then
                     let a = (if bufferType hnd = BUFFER_TYPE_PMEM then sAllocator
                              else sGPUAllocator);
                         (_, s1) = syscall K (Deallocate a (offset hnd)) s
                     in memset K (base hnd) (size' hnd) s1
                   else Some s) of
               None \<Rightarrow> None
             | Some s3 \<Rightarrow>
                 let (_, s4) = syscall K (Unregister_buffer hnd) s3;
                     (_, s5) = syscall K (Close (fd hnd)) s4
                 in Some (0, Some (delete_private_handle_t hnd), s5))))"

subsection \<open>The contract of the kernel\<close>

text \<open>
  What POSIX and the pmem driver promise, for the statements that depend on it: a call
  that fails leaves a positive \<^verbatim>\<open>errno\<close>; an \<^verbatim>\<open>ioctl\<close> of the pmem driver returns 0 or
  \<open>-1\<close>, and \<open>-1\<close> on a negative descriptor.
\<close>

definition ioctl_contract :: "word32 \<Rightarrow> reply \<Rightarrow> bool" where
  "ioctl_contract fd0 r \<longleftrightarrow>
     (ret r = 0 \<or> ret r = - 1) \<and> (ret r = - 1 \<longrightarrow> 0 <s errno_after r)
     \<and> (fd0 <s 0 \<longrightarrow> ret r = - 1)"

definition call_contract :: "call \<Rightarrow> reply \<Rightarrow> bool" where
  "call_contract c r =
     (case c of
        Open path \<Rightarrow> ret r <s 0 \<longrightarrow> 0 <s errno_after r
      | Mmap len fd0 \<Rightarrow> ret r = MAP_FAILED \<longrightarrow> 0 <s errno_after r
      | Ashmem_create_region name len \<Rightarrow> ret r <s 0 \<longrightarrow> 0 <s errno_after r
      | Ioctl_PMEM_GET_PHYS fd0 \<Rightarrow> ioctl_contract fd0 r
      | Ioctl_PMEM_CONNECT fd0 master_fd \<Rightarrow> ioctl_contract fd0 r
      | Ioctl_PMEM_MAP fd0 off len \<Rightarrow> ioctl_contract fd0 r
      | _ \<Rightarrow> True)"

definition posix :: "environment \<Rightarrow> bool" where
  "posix K \<longleftrightarrow> (\<forall>tr c. call_contract c (kernel K tr c))"

text \<open>
  The primary pool is available: \<^verbatim>\<open>/dev/pmem\<close> opens, a mapping succeeds, the allocator
  of the pool has room, and the pmem \<^verbatim>\<open>ioctl\<close>s succeed on an open descriptor.
\<close>

definition pool_available :: "environment \<Rightarrow> bool" where
  "pool_available K \<longleftrightarrow>
     (\<forall>tr. 0 \<le>s ret (kernel K tr (Open ''/dev/pmem''))
        \<and> (\<forall>len fd0. ret (kernel K tr (Mmap len fd0)) \<noteq> MAP_FAILED)
        \<and> (\<forall>len. 0 \<le>s ret (kernel K tr (Allocate sAllocator len)))
        \<and> (\<forall>fd0 master_fd. 0 \<le>s fd0 \<longrightarrow> ret (kernel K tr (Ioctl_PMEM_CONNECT fd0 master_fd)) = 0)
        \<and> (\<forall>fd0 off len. 0 \<le>s fd0 \<longrightarrow> ret (kernel K tr (Ioctl_PMEM_MAP fd0 off len)) = 0))"

subsection \<open>Concrete environments\<close>

definition ok_reply :: "word32 \<Rightarrow> reply" where
  "ok_reply v = \<lparr> ret = v, errno_after = 0, out = 0 \<rparr>"

definition fail_reply :: "word32 \<Rightarrow> reply" where
  "fail_reply e = \<lparr> ret = - 1, errno_after = e, out = 0 \<rparr>"

text \<open>
  A kernel on which every call succeeds: a new descriptor is 3 plus the number of calls
  made so far (modulo 1000), the pool is mapped at \<open>0x40000000\<close>, an allocator hands out
  offset \<open>0x2000\<close>, and an \<^verbatim>\<open>ioctl\<close> on a negative descriptor fails with \<^verbatim>\<open>EBADF\<close>.
\<close>

definition descriptor_reply :: "event list \<Rightarrow> reply" where
  "descriptor_reply tr = ok_reply (of_nat (3 + length tr mod 1000))"

definition ioctl_reply :: "word32 \<Rightarrow> word32 \<Rightarrow> reply" where
  "ioctl_reply fd0 v = (if fd0 <s 0 then fail_reply 9 else \<lparr> ret = 0, errno_after = 0, out = v \<rparr>)"

definition working_kernel :: "event list \<Rightarrow> call \<Rightarrow> reply" where
  "working_kernel tr c =
     (case c of
        Open path \<Rightarrow> descriptor_reply tr
      | Mmap len fd0 \<Rightarrow> ok_reply 0x40000000
      | Ioctl_PMEM_GET_PHYS fd0 \<Rightarrow> ioctl_reply fd0 0x10000000
      | Ioctl_PMEM_CONNECT fd0 master_fd \<Rightarrow> ioctl_reply fd0 0
      | Ioctl_PMEM_MAP fd0 off len \<Rightarrow> ioctl_reply fd0 0
      | Ashmem_create_region name len \<Rightarrow> descriptor_reply tr
      | Close fd0 \<Rightarrow> ok_reply 0
      | Dup fd0 \<Rightarrow> descriptor_reply tr
      | Getpid \<Rightarrow> ok_reply 1000
      | Memset a len \<Rightarrow> ok_reply a
      | Allocate a len \<Rightarrow> ok_reply 0x2000
      | Deallocate a off \<Rightarrow> ok_reply 0
      | Unregister_buffer hnd \<Rightarrow> ok_reply 0
      | MapFrameBufferLocked \<Rightarrow> ok_reply 0)"

text \<open>The sizes that \<^verbatim>\<open>gralloc.cpp\<close> constructs the two allocators with.\<close>

definition heap_size :: "allocator \<Rightarrow> word32" where
  "heap_size a = (case a of sAllocator \<Rightarrow> 10 * 1024 * 1024 | sGPUAllocator \<Rightarrow> 3 * 1024 * 1024)"

text \<open>
  A display surface of two buffers of 480 by 800 pixels of 2 bytes, mapped at
  \<open>0x50000000\<close>.
\<close>

definition surface :: private_handle_t where
  "surface = (new_private_handle_t android_arm 3 (2 * 960 * 800)
                (PRIV_FLAGS_USES_PMEM OR PRIV_FLAGS_FRAMEBUFFER) BUFFER_TYPE_FB 1000)
               \<lparr>base := 0x50000000, phys := 0x20000000\<rparr>"

definition map_surface :: "event list \<Rightarrow> private_module_t \<Rightarrow> word32 \<times> private_module_t" where
  "map_surface tr m =
     (0, m\<lparr>framebuffer := Some surface, numBuffers := 2, bufferMask := 0,
           finfo_line_length := 960, info_yres := 800\<rparr>)"

text \<open>The bytes that lie within a region that an \<^verbatim>\<open>mmap\<close> of the trace has mapped.\<close>

definition mapped :: "event list \<Rightarrow> word32 \<Rightarrow> word32 \<Rightarrow> bool" where
  "mapped tr a len \<longleftrightarrow>
     list_ex (\<lambda>(c, r). case c of
                Mmap n fd0 \<Rightarrow> r \<noteq> MAP_FAILED \<and> unat r \<le> unat a
                              \<and> unat a + unat len \<le> unat r + unat n
              | _ \<Rightarrow> False) tr"

text \<open>
  \<open>failing F\<close> is the working environment, except that the calls in \<open>F\<close> fail with
  \<^verbatim>\<open>ENODEV\<close>.
\<close>

definition failing :: "(call \<Rightarrow> bool) \<Rightarrow> environment" where
  "failing F =
     \<lparr> kernel = (\<lambda>tr c. if F c then fail_reply 19 else working_kernel tr c),
       allocator_size = heap_size,
       mapFrameBufferLocked = map_surface,
       uninitialized = (\<lambda>tr. BUFFER_TYPE_GPU0),
       writable = mapped \<rparr>"

definition working :: environment where
  "working = failing (\<lambda>c. False)"

fun is_Open :: "call \<Rightarrow> bool" where
  "is_Open (Open path) = True"
| "is_Open _ = False"

fun is_Ioctl_PMEM_MAP :: "call \<Rightarrow> bool" where
  "is_Ioctl_PMEM_MAP (Ioctl_PMEM_MAP fd0 off len) = True"
| "is_Ioctl_PMEM_MAP _ = False"

fun is_Ashmem_create_region :: "call \<Rightarrow> bool" where
  "is_Ashmem_create_region (Ashmem_create_region name len) = True"
| "is_Ashmem_create_region _ = False"

text \<open>
  A handle was stored, and the four fields that \<open>validate\<close> reads are as the
  constructor sets them.
\<close>

definition constructed :: "platform \<Rightarrow> private_handle_t option \<Rightarrow> bool" where
  "constructed P stored \<longleftrightarrow>
     (\<exists>hnd. stored = Some hnd \<and> version hnd = sizeof_native_handle P \<and> numInts hnd = 8
            \<and> numFds hnd = 1 \<and> magic hnd = 0x3141592)"

text \<open>The calls that \<^verbatim>\<open>init_pmem_area\<close> makes.\<close>

fun init_call :: "call \<Rightarrow> bool" where
  "init_call (Open path) = True"
| "init_call (Mmap len fd0) = True"
| "init_call (Close fd0) = True"
| "init_call (Ioctl_PMEM_GET_PHYS fd0) = True"
| "init_call _ = False"

fun is_Allocate :: "call \<Rightarrow> bool" where
  "is_Allocate (Allocate a len) = True"
| "is_Allocate _ = False"

text \<open>
  The steps of \<open>alloc_from_pool\<close> after the extent is reserved: opening the second
  descriptor, connecting it, mapping the extent.
\<close>

fun pool_step :: "call \<Rightarrow> bool" where
  "pool_step (Open path) = True"
| "pool_step (Ioctl_PMEM_CONNECT fd0 master_fd) = True"
| "pool_step (Ioctl_PMEM_MAP fd0 off len) = True"
| "pool_step _ = False"

definition initial :: state where
  "initial = \<lparr> module = HAL_MODULE_INFO_SYM, errno = 0, trace = [] \<rparr>"

text \<open>
  The handle that \<open>gralloc_alloc_buffer\<close> returns for 4096 bytes of anonymous shared
  memory (usage 0) on the working kernel.
\<close>

definition ashmem_handle :: private_handle_t where
  "ashmem_handle = new_private_handle_t android_arm 3 4096 0 BUFFER_TYPE_GPU0 1000"

text \<open>
  What the working kernel gives for a 64 by 64 buffer of 4 bytes per pixel that is to be
  sampled as a texture, from the initial state: the handle and the state afterwards.
\<close>

definition pool_handle :: private_handle_t where
  "pool_handle = (new_private_handle_t android_arm 6 16384 2 BUFFER_TYPE_PMEM 1000)
                   \<lparr>offset := 0x2000, base := 0x40002000, lockState := 0x40000000\<rparr>"

definition after_pool :: state where
  "after_pool =
     initial\<lparr>module := HAL_MODULE_INFO_SYM\<lparr>pmem_master := 3, pmem_master_base := 0x40000000\<rparr>,
             trace := [(Open ''/dev/pmem'', 3), (Mmap 10485760 3, 0x40000000),
                       (Allocate sAllocator 16384, 0x2000), (Open ''/dev/pmem'', 6),
                       (Ioctl_PMEM_CONNECT 6 3, 0), (Ioctl_PMEM_MAP 6 0x2000 16384, 0),
                       (Getpid, 1000)]\<rparr>"

text \<open>The same for a scanout buffer of 768000 bytes: the first slot of the surface.\<close>

definition slot_handle :: private_handle_t where
  "slot_handle = (new_private_handle_t android_arm 4 768000 3 BUFFER_TYPE_FB 1000)
                   \<lparr>base := 0x50000000, phys := 0x20000000\<rparr>"

definition after_slot :: state where
  "after_slot =
     initial\<lparr>module := HAL_MODULE_INFO_SYM\<lparr>framebuffer := Some surface, numBuffers := 2,
                          bufferMask := 1, finfo_line_length := 960, info_yres := 800\<rparr>,
             trace := [(MapFrameBufferLocked, 0), (Dup 3, 4), (Getpid, 1000)]\<rparr>"

text \<open>
  The calls of a request for 4096 bytes with texture usage, from the initial state, on a
  kernel where \<^verbatim>\<open>PMEM_MAP\<close> fails.
\<close>

definition unwound_events :: "event list" where
  "unwound_events =
     [(Open ''/dev/pmem'', 3), (Mmap 10485760 3, 0x40000000),
      (Allocate sAllocator 4096, 0x2000), (Open ''/dev/pmem'', 6),
      (Ioctl_PMEM_CONNECT 6 3, 0), (Ioctl_PMEM_MAP 6 0x2000 4096, - 1), (Close 6, 0),
      (Deallocate sAllocator 0x2000, 0)]"

text \<open>
  The surface of two buffers, mapped, with slot mask \<open>m\<close>; and the handle of its second
  slot.
\<close>

definition two_slots :: "word32 \<Rightarrow> state" where
  "two_slots m =
     initial\<lparr>module := HAL_MODULE_INFO_SYM\<lparr>framebuffer := Some surface, numBuffers := 2,
                          bufferMask := m, finfo_line_length := 960, info_yres := 800\<rparr>\<rparr>"

definition second_slot_handle :: private_handle_t where
  "second_slot_handle = slot_handle\<lparr>base := 0x50000000 + 768000, offset := 768000,
                                     phys := 0x20000000 + 768000\<rparr>"

text \<open>
  The handle on anonymous shared memory once the process has mapped its 4096 bytes at
  \<open>0x40000000\<close>, and the state then.
\<close>

definition mapped_ashmem_handle :: private_handle_t where
  "mapped_ashmem_handle = ashmem_handle\<lparr>base := 0x40000000\<rparr>"

definition after_ashmem_mapped :: state where
  "after_ashmem_mapped =
     initial\<lparr>trace := [(Ashmem_create_region ''Buffer'' 4096, 3), (Getpid, 1000),
                        (Mmap 4096 3, 0x40000000)]\<rparr>"

definition gpu1_device :: gralloc_context_t where
  "gpu1_device = \<lparr> context_bufferType = BUFFER_TYPE_GPU1 \<rparr>"

section \<open>Properties\<close>

text \<open>The equations that evaluate a run in a concrete environment.\<close>

lemmas run_simps =
  android_arm_def PRIV_FLAGS_FRAMEBUFFER_def PRIV_FLAGS_USES_PMEM_def LOCK_STATE_MAPPED_def
  sNumInts_def sNumFds_def sMagic_def roundUpToPageSize_def new_private_handle_t_def
  destructor_private_handle_t_def delete_private_handle_t_def validate_def validate_memory_def
  HAL_MODULE_INFO_SYM_def syscall_def MAP_FAILED_def memset_def mapped_def
  device_path_def open_device_def init_pmem_area_def alloc_buffer_return_def try_ashmem_def master_fd_of_def
  open_master_def alloc_from_pool_def choose_backing_def gralloc_alloc_buffer_def map_framebuffer_def
  ensure_mapped_def
  gralloc_alloc_framebuffer_locked_def gralloc_alloc_framebuffer_def bytes_per_pixel_def
  gralloc_alloc_def gralloc_free_def ok_reply_def fail_reply_def ioctl_reply_def
  descriptor_reply_def
  working_kernel_def heap_size_def surface_def map_surface_def failing_def working_def
  initial_def ashmem_handle_def gpu1_device_def word_sless_alt word_sle_eq Let_def

subsection \<open>Signed comparisons\<close>

lemma uminus_sless_0:
  fixes e :: word32
  assumes "0 <s e"
  shows "- e <s 0"
proof -
  from assms have pos: "0 < sint e"
    by (simp add: word_sless_alt)
  have "sint e < 2 ^ 31"
    using sint_lt [of e] by simp
  with pos have "signed_take_bit 31 (- sint e) = - sint e"
    by (intro signed_take_bit_int_eq_self) simp_all
  then have "sint (- e) = - sint e"
    by (simp add: sint_word_ariths)
  with pos show ?thesis
    by (simp add: word_sless_alt)
qed

lemma sless_0_neq_0:
  fixes e :: word32
  assumes "0 <s e"
  shows "e \<noteq> 0"
  using assms by auto

subsection \<open>Calls to the environment\<close>

lemma posix_contract: "posix K \<Longrightarrow> call_contract c (kernel K tr c)"
  by (simp add: posix_def)

lemma syscall_state:
  assumes "syscall K c s = (r, s')"
  shows "trace s' = trace s @ [(c, r)]" and "module s' = module s"
  using assms by (auto simp: syscall_def Let_def)

lemma syscall_Open_errno:
  assumes "posix K" and "syscall K (Open path) s = (r, s')" and "r <s 0"
  shows "- errno s' <s 0"
  using assms posix_contract [of K "Open path" "trace s"]
  by (intro uminus_sless_0) (auto simp: syscall_def Let_def call_contract_def)

lemma syscall_Mmap_errno:
  assumes "posix K" and "syscall K (Mmap len fd0) s = (r, s')" and "r = MAP_FAILED"
  shows "- errno s' <s 0"
  using assms posix_contract [of K "Mmap len fd0" "trace s"]
  by (intro uminus_sless_0) (auto simp: syscall_def Let_def call_contract_def)

lemma syscall_Ashmem_errno:
  assumes "posix K" and "syscall K (Ashmem_create_region name len) s = (r, s')" and "r <s 0"
  shows "- errno s' <s 0"
  using assms posix_contract [of K "Ashmem_create_region name len" "trace s"]
  by (intro uminus_sless_0) (auto simp: syscall_def Let_def call_contract_def)

lemma ioctl_contract_result:
  assumes "ioctl_contract fd0 rp"
  shows "ret rp = 0 \<or> ret rp <s 0" and "ret rp <s 0 \<Longrightarrow> - errno_after rp <s 0"
    and "fd0 <s 0 \<Longrightarrow> ret rp <s 0"
proof -
  show "ret rp = 0 \<or> ret rp <s 0"
    using assms by (auto simp: ioctl_contract_def)
  show "- errno_after rp <s 0" if "ret rp <s 0"
    using assms that by (intro uminus_sless_0) (auto simp: ioctl_contract_def)
  show "ret rp <s 0" if "fd0 <s 0"
    using assms that by (auto simp: ioctl_contract_def)
qed

lemma syscall_GET_PHYS:
  assumes "posix K" and "syscall K (Ioctl_PMEM_GET_PHYS fd0) s = (r, s')"
  shows "r = 0 \<or> r <s 0" and "fd0 <s 0 \<Longrightarrow> r <s 0"
  using assms ioctl_contract_result [of fd0 "kernel K (trace s) (Ioctl_PMEM_GET_PHYS fd0)"]
    posix_contract [of K "Ioctl_PMEM_GET_PHYS fd0" "trace s"]
  by (auto simp: syscall_def Let_def call_contract_def)

lemma syscall_CONNECT:
  assumes "posix K" and "syscall K (Ioctl_PMEM_CONNECT fd0 m) s = (r, s')"
  shows "r = 0 \<or> r <s 0" and "r <s 0 \<Longrightarrow> - errno s' <s 0" and "fd0 <s 0 \<Longrightarrow> r <s 0"
  using assms ioctl_contract_result [of fd0 "kernel K (trace s) (Ioctl_PMEM_CONNECT fd0 m)"]
    posix_contract [of K "Ioctl_PMEM_CONNECT fd0 m" "trace s"]
  by (auto simp: syscall_def Let_def call_contract_def)

lemma syscall_MAP:
  assumes "posix K" and "syscall K (Ioctl_PMEM_MAP fd0 off len) s = (r, s')"
  shows "r = 0 \<or> r <s 0"
  using assms ioctl_contract_result [of fd0 "kernel K (trace s) (Ioctl_PMEM_MAP fd0 off len)"]
    posix_contract [of K "Ioctl_PMEM_MAP fd0 off len" "trace s"]
  by (auto simp: syscall_def Let_def call_contract_def)

lemma open_device_errno:
  assumes "posix K" and "type \<noteq> BUFFER_TYPE_FB" and "open_device K type s = (f, s')"
    and "f <s 0"
  shows "- errno s' <s 0"
  using assms by (cases type) (auto simp: open_device_def device_path_def dest: syscall_Open_errno)

lemma open_device_module:
  assumes "open_device K type s = (f, s')"
  shows "module s' = module s"
  using assms by (cases type) (auto simp: open_device_def device_path_def dest: syscall_state)

lemma not_sle_iff: "\<not> (0 :: word32) \<le>s x \<longleftrightarrow> x <s 0"
  by (simp add: signed.not_le)

subsection \<open>The paths of the allocation policy\<close>

lemma alloc_buffer_return_fst:
  "fst (alloc_buffer_return P K err fd0 size0 flags0 bufferType0 base0 offset0 lockState0 s) = err"
  by (simp add: alloc_buffer_return_def Let_def split: prod.split)

lemma alloc_buffer_return_error:
  assumes "err \<noteq> 0"
  shows "alloc_buffer_return P K err fd0 size0 flags0 bufferType0 base0 offset0 lockState0 s
         = (err, None, s)"
  using assms by (simp add: alloc_buffer_return_def)

lemma alloc_buffer_return_success:
  assumes "syscall K Getpid s = (p, s1)"
  shows "alloc_buffer_return P K 0 fd0 size0 flags0 bufferType0 base0 offset0 lockState0 s
         = (0, Some ((new_private_handle_t P fd0 size0 flags0 bufferType0 p)
                       \<lparr>offset := offset0, base := base0 + offset0, lockState := lockState0,
                        phys := (if bufferType0 = BUFFER_TYPE_GPU1
                                 then master_phys (module s) + offset0 else 0)\<rparr>), s1)"
  using assms syscall_state(2) [OF assms]
  by (simp add: alloc_buffer_return_def Let_def)

lemma try_ashmem_eq:
  assumes "syscall K (Ashmem_create_region ''Buffer'' size0) s = (fd0, s1)"
  shows "try_ashmem P K size0 flags0 bufferType0 s
         = alloc_buffer_return P K (if fd0 <s 0 then - errno s1 else 0) fd0 size0 flags0
             bufferType0 0 0 0 s1"
  using assms by (simp add: try_ashmem_def Let_def)

lemma alloc_from_pool_cases [case_names no_space mapped unwound]:
  assumes alloc: "syscall K (Allocate (if type = BUFFER_TYPE_PMEM then sAllocator
                                        else sGPUAllocator) len) s = (off, s2)"
  obtains
    "off <s 0"
    "alloc_from_pool P K len flgs type master_fd s
     = alloc_buffer_return P K (- ENOMEM P) (- 1) len flgs type
         (if type = BUFFER_TYPE_PMEM then pmem_master_base (module s)
          else gpu_master_base (module s)) off LOCK_STATE_MAPPED s2"
  | fd0 s3 r s4 err s5 where
    "\<not> off <s 0"
    "open_device K type s2 = (fd0, s3)"
    "syscall K (Ioctl_PMEM_CONNECT fd0 master_fd) s3 = (r, s4)"
    "(if r <s 0 then (- errno s4, s4) else syscall K (Ioctl_PMEM_MAP fd0 off len) s4)
     = (err, s5)"
    "\<not> err <s 0"
    "alloc_from_pool P K len flgs type master_fd s
     = alloc_buffer_return P K err fd0 len flgs type
         (if type = BUFFER_TYPE_PMEM then pmem_master_base (module s)
          else gpu_master_base (module s)) off LOCK_STATE_MAPPED s5"
  | fd0 s3 r s4 err s5 r1 s6 r2 s7 where
    "\<not> off <s 0"
    "open_device K type s2 = (fd0, s3)"
    "syscall K (Ioctl_PMEM_CONNECT fd0 master_fd) s3 = (r, s4)"
    "(if r <s 0 then (- errno s4, s4) else syscall K (Ioctl_PMEM_MAP fd0 off len) s4)
     = (err, s5)"
    "err <s 0"
    "syscall K (Close fd0) s5 = (r1, s6)"
    "syscall K (Deallocate (if type = BUFFER_TYPE_PMEM then sAllocator
                            else sGPUAllocator) off) s6 = (r2, s7)"
    "alloc_from_pool P K len flgs type master_fd s
     = (err, None, s7)"
proof (cases "off <s 0")
  case True
  with alloc that(1) show ?thesis
    by (simp add: alloc_from_pool_def Let_def)
next
  case False
  obtain fd0 s3 where o: "open_device K type s2 = (fd0, s3)"
    by fastforce
  obtain r s4 where c: "syscall K (Ioctl_PMEM_CONNECT fd0 master_fd) s3 = (r, s4)"
    by fastforce
  obtain err s5 where
    m: "(if r <s 0 then (- errno s4, s4) else syscall K (Ioctl_PMEM_MAP fd0 off len) s4)
        = (err, s5)"
    by fastforce
  show ?thesis
  proof (cases "err <s 0")
    case neg: True
    obtain r1 s6 where cl: "syscall K (Close fd0) s5 = (r1, s6)"
      by fastforce
    obtain r2 s7 where
      d: "syscall K (Deallocate (if type = BUFFER_TYPE_PMEM then sAllocator
                                 else sGPUAllocator) off) s6 = (r2, s7)"
      by fastforce
    from neg have "err \<noteq> 0"
      by auto
    with alloc False o c m neg cl d
    have "alloc_from_pool P K len flgs type master_fd s = (err, None, s7)"
      by (simp add: alloc_from_pool_def Let_def alloc_buffer_return_error)
    with False o c m neg cl d that(3) show ?thesis
      by blast
  next
    case pos: False
    with alloc False o c m
    have "alloc_from_pool P K len flgs type master_fd s
         = alloc_buffer_return P K err fd0 len flgs type
             (if type = BUFFER_TYPE_PMEM then pmem_master_base (module s)
              else gpu_master_base (module s)) off LOCK_STATE_MAPPED s5"
      by (simp add: alloc_from_pool_def Let_def)
    with False o c m pos that(2) show ?thesis
      by blast
  qed
qed

lemma init_pmem_area_negative:
  assumes "posix K" and "type \<noteq> BUFFER_TYPE_FB"
    and "init_pmem_area K type s = (e, s1)"
    and "master_fd_of type (module s1) <s 0"
  shows "e <s 0"
proof -
  obtain f sa where od: "open_device K type s = (f, sa)"
    by fastforce
  show ?thesis
  proof (cases "0 \<le>s f")
    case False
    then have "f <s 0"
      by (simp add: signed.not_le)
    with assms(1,2) od have "- errno sa <s 0"
      by (rule open_device_errno)
    with assms(3) od False show ?thesis
      by (auto simp: init_pmem_area_def Let_def)
  next
    case True
    let ?n = "allocator_size K (if type = BUFFER_TYPE_PMEM then sAllocator else sGPUAllocator)"
    obtain b s2 where mm: "syscall K (Mmap ?n f) sa = (b, s2)"
      by fastforce
    show ?thesis
    proof (cases "b = MAP_FAILED")
      case failed: True
      with assms(1) mm have neg: "- errno s2 <s 0"
        by (rule syscall_Mmap_errno)
      obtain rc sc where cl: "syscall K (Close f) s2 = (rc, sc)"
        by fastforce
      show ?thesis
      proof (cases "type = BUFFER_TYPE_PMEM")
        case True
        with assms(3) od \<open>0 \<le>s f\<close> mm failed cl neg show ?thesis
          by (auto simp: init_pmem_area_def Let_def)
      next
        case False
        let ?s4 = "sc\<lparr>module := (module sc)\<lparr>gpu_master := - 1, gpu_master_base := 0\<rparr>\<rparr>"
        obtain r s5 where io: "syscall K (Ioctl_PMEM_GET_PHYS (- 1)) ?s4 = (r, s5)"
          by fastforce
        from assms(1) io have "r <s 0"
          by (rule syscall_GET_PHYS(2)) simp
        with assms(3) od \<open>0 \<le>s f\<close> mm failed cl False io show ?thesis
          by (auto simp: init_pmem_area_def Let_def)
      qed
    next
      case mapped: False
      show ?thesis
      proof (cases "type = BUFFER_TYPE_PMEM")
        case True
        with assms(3) od \<open>0 \<le>s f\<close> mm mapped have "pmem_master (module s1) = f"
          by (auto simp: init_pmem_area_def Let_def)
        with assms(4) True \<open>0 \<le>s f\<close> show ?thesis
          by (simp add: master_fd_of_def signed.not_less [symmetric])
      next
        case False
        let ?s4 = "s2\<lparr>module := (module s2)\<lparr>gpu_master := f, gpu_master_base := b\<rparr>\<rparr>"
        obtain r s5 where io: "syscall K (Ioctl_PMEM_GET_PHYS f) ?s4 = (r, s5)"
          by fastforce
        from io have "module s5 = module ?s4"
          by (rule syscall_state)
        with assms(3) od \<open>0 \<le>s f\<close> mm mapped False io have "gpu_master (module s1) = f"
          by (auto simp: init_pmem_area_def Let_def split: if_splits)
        with assms(4) False \<open>0 \<le>s f\<close> show ?thesis
          by (simp add: master_fd_of_def signed.not_less [symmetric])
      qed
    qed
  qed
qed

lemma open_device_trace:
  assumes "open_device K type s = (f, s1)"
  shows "\<exists>ev. trace s1 = trace s @ ev \<and> (\<forall>x\<in>set ev. init_call (fst x))"
  using assms
  by (cases type) (auto simp: open_device_def device_path_def dest!: syscall_state(1))

lemma init_pmem_area_trace:
  assumes "init_pmem_area K type s = (e, s1)"
  shows "\<exists>ev. trace s1 = trace s @ ev \<and> (\<forall>x\<in>set ev. init_call (fst x))"
proof -
  obtain f sa where od: "open_device K type s = (f, sa)"
    by fastforce
  then obtain ev where ev: "trace sa = trace s @ ev" "\<forall>x\<in>set ev. init_call (fst x)"
    using open_device_trace by blast
  from assms od ev show ?thesis
    by (auto simp: init_pmem_area_def Let_def split: prod.splits if_splits
        dest!: syscall_state(1))
qed

lemma open_master_trace:
  assumes "open_master K bufferType0 s = (e, m, s1)"
  shows "\<exists>ev. trace s1 = trace s @ ev \<and> (\<forall>x\<in>set ev. init_call (fst x))"
  using assms
  by (auto simp: open_master_def Let_def split: prod.splits if_splits
      dest: init_pmem_area_trace)

lemma open_master_fd:
  assumes "open_master K bufferType0 s = (e, m, s1)"
  shows "m = master_fd_of bufferType0 (module s1)"
  using assms by (auto simp: open_master_def Let_def split: prod.splits)

lemma open_master_nonpos:
  assumes "posix K" and "bufferType0 \<noteq> BUFFER_TYPE_FB"
    and "open_master K bufferType0 s = (e, m, s1)" and "m <s 0"
  shows "e = 0 \<or> e <s 0"
  using assms
  by (auto simp: open_master_def Let_def split: prod.splits if_splits
      dest: init_pmem_area_negative)

lemma open_master_negative:
  assumes "posix K" and "bufferType0 \<noteq> BUFFER_TYPE_FB"
    and "master_fd_of bufferType0 (module s) = - 1"
    and "open_master K bufferType0 s = (e, m, s1)" and "m <s 0"
  shows "e <s 0"
  using assms
  by (auto simp: open_master_def Let_def split: prod.splits if_splits
      dest: init_pmem_area_negative)

lemma choose_backing_cases [case_names render texture other]:
  obtains
    "usage AND (GRALLOC_USAGE_HW_2D P OR GRALLOC_USAGE_HW_RENDER P) \<noteq> 0"
    "choose_backing P K dev usage s = (PRIV_FLAGS_USES_PMEM, context_bufferType dev)"
  | "usage AND (GRALLOC_USAGE_HW_2D P OR GRALLOC_USAGE_HW_RENDER P) = 0"
    "usage AND GRALLOC_USAGE_HW_TEXTURE P \<noteq> 0"
    "choose_backing P K dev usage s = (PRIV_FLAGS_USES_PMEM, BUFFER_TYPE_PMEM)"
  | "usage AND (GRALLOC_USAGE_HW_2D P OR GRALLOC_USAGE_HW_RENDER P) = 0"
    "usage AND GRALLOC_USAGE_HW_TEXTURE P = 0"
    "choose_backing P K dev usage s = (0, uninitialized K (trace s))"
  by (auto simp: choose_backing_def)

lemma gralloc_alloc_buffer_cases [case_names anonymous pool fallback strict]:
  assumes "choose_backing P K dev usage s = (flgs, type)"
  obtains
    "flgs = 0"
    "gralloc_alloc_buffer P K dev len usage s
     = try_ashmem P K (roundUpToPageSize P len) 0 type s"
  | err0 master_fd s1 where
    "flgs = PRIV_FLAGS_USES_PMEM"
    "open_master K type s = (err0, master_fd, s1)" "0 \<le>s master_fd"
    "gralloc_alloc_buffer P K dev len usage s
     = alloc_from_pool P K (roundUpToPageSize P len) PRIV_FLAGS_USES_PMEM type
         master_fd s1"
  | err0 master_fd s1 where
    "flgs = PRIV_FLAGS_USES_PMEM"
    "open_master K type s = (err0, master_fd, s1)" "master_fd <s 0"
    "usage AND GRALLOC_USAGE_HW_2D P = 0"
    "gralloc_alloc_buffer P K dev len usage s
     = try_ashmem P K (roundUpToPageSize P len) 0 type s1"
  | err0 master_fd s1 where
    "flgs = PRIV_FLAGS_USES_PMEM"
    "open_master K type s = (err0, master_fd, s1)" "master_fd <s 0"
    "usage AND GRALLOC_USAGE_HW_2D P \<noteq> 0"
    "gralloc_alloc_buffer P K dev len usage s
     = alloc_buffer_return P K err0 (- 1) (roundUpToPageSize P len) PRIV_FLAGS_USES_PMEM
         type 0 0 0 s1"
proof -
  from assms consider "flgs = 0" | "flgs = PRIV_FLAGS_USES_PMEM"
    by (auto simp: choose_backing_def split: if_splits)
  then show ?thesis
  proof cases
    case 1
    with assms that(1) show ?thesis
      by (simp add: gralloc_alloc_buffer_def Let_def)
  next
    case 2
    obtain err0 master_fd s1 where om: "open_master K type s = (err0, master_fd, s1)"
      by (metis prod_cases3)
    have clear: "PRIV_FLAGS_USES_PMEM AND NOT PRIV_FLAGS_USES_PMEM = (0 :: word32)"
      by simp
    have set: "PRIV_FLAGS_USES_PMEM AND PRIV_FLAGS_USES_PMEM \<noteq> (0 :: word32)"
      by (simp add: PRIV_FLAGS_USES_PMEM_def)
    show ?thesis
    proof (cases "0 \<le>s master_fd")
      case True
      with assms 2 om set that(2) show ?thesis
        by (simp add: gralloc_alloc_buffer_def Let_def)
    next
      case False
      then have neg: "master_fd <s 0"
        by (simp add: signed.not_le)
      show ?thesis
      proof (cases "usage AND GRALLOC_USAGE_HW_2D P = 0")
        case True
        with assms 2 om False neg set clear that(3) show ?thesis
          by (simp add: gralloc_alloc_buffer_def Let_def)
      next
        case strict: False
        with assms 2 om False neg set that(4) show ?thesis
          by (simp add: gralloc_alloc_buffer_def Let_def)
      qed
    qed
  qed
qed

subsection \<open>The paths of the framebuffer slot allocator\<close>

lemma gralloc_alloc_framebuffer_cases
  [case_names map_failed single undefined full unmapped slot]:
  assumes m: "ensure_mapped K s = (err, sa)"
  obtains
    "framebuffer (module s) = None" "err <s 0"
    "gralloc_alloc_framebuffer P K dev len usage s = Some (err, None, sa)"
  | "numBuffers (module sa) = 1"
    "gralloc_alloc_framebuffer P K dev len usage s
     = Some (gralloc_alloc_buffer P K dev (finfo_line_length (module sa) * info_yres (module sa))
               ((usage AND NOT (GRALLOC_USAGE_HW_FB P)) OR GRALLOC_USAGE_HW_2D P) sa)"
  | "32 \<le> numBuffers (module sa)"
    "gralloc_alloc_framebuffer P K dev len usage s = None"
  | "numBuffers (module sa) \<noteq> 1" "numBuffers (module sa) < 32"
    "2 ^ unat (numBuffers (module sa)) - 1 \<le> bufferMask (module sa)"
    "gralloc_alloc_framebuffer P K dev len usage s = Some (- ENOMEM P, None, sa)"
  | "framebuffer (module sa) = None"
    "gralloc_alloc_framebuffer P K dev len usage s = None"
  | fb fd0 s1 p s2 where
    "numBuffers (module sa) \<noteq> 1" "numBuffers (module sa) < 32"
    "\<not> 2 ^ unat (numBuffers (module sa)) - 1 \<le> bufferMask (module sa)"
    "framebuffer (module sa) = Some fb"
    "syscall K (Dup (fd fb)) sa = (fd0, s1)" "syscall K Getpid s1 = (p, s2)"
    "gralloc_alloc_framebuffer P K dev len usage s
     = Some (0,
         Some ((new_private_handle_t P fd0 len (PRIV_FLAGS_USES_PMEM OR PRIV_FLAGS_FRAMEBUFFER)
                  BUFFER_TYPE_FB p)
               \<lparr>base := snd (find_free_slot (bufferMask (module sa)) (numBuffers (module sa))
                               (finfo_line_length (module sa) * info_yres (module sa)) 0
                               (bufferMask (module sa)) (base fb)),
                offset := snd (find_free_slot (bufferMask (module sa)) (numBuffers (module sa))
                               (finfo_line_length (module sa) * info_yres (module sa)) 0
                               (bufferMask (module sa)) (base fb)) - base fb,
                phys := phys fb
                        + (snd (find_free_slot (bufferMask (module sa)) (numBuffers (module sa))
                               (finfo_line_length (module sa) * info_yres (module sa)) 0
                               (bufferMask (module sa)) (base fb)) - base fb)\<rparr>),
         s2\<lparr>module := (module sa)\<lparr>bufferMask :=
               fst (find_free_slot (bufferMask (module sa)) (numBuffers (module sa))
                     (finfo_line_length (module sa) * info_yres (module sa)) 0
                     (bufferMask (module sa)) (base fb))\<rparr>\<rparr>)"
proof (cases "framebuffer (module s) = None \<and> err <s 0")
  case True
  then have "gralloc_alloc_framebuffer P K dev len usage s = Some (err, None, sa)"
    by (simp add: gralloc_alloc_framebuffer_def gralloc_alloc_framebuffer_locked_def m)
  with True show ?thesis
    by (intro that(1)) simp_all
next
  case ok: False
  show ?thesis
  proof (cases "numBuffers (module sa) = 1")
    case True
    show ?thesis
      by (rule that(2) [OF True])
        (simp add: gralloc_alloc_framebuffer_def gralloc_alloc_framebuffer_locked_def
          m Let_def ok True)
  next
    case several: False
    show ?thesis
    proof (cases "32 \<le> numBuffers (module sa)")
      case True
      show ?thesis
        by (rule that(3) [OF True])
          (simp add: gralloc_alloc_framebuffer_def gralloc_alloc_framebuffer_locked_def
            m Let_def ok several True)
    next
      case small: False
      then have lt: "numBuffers (module sa) < 32"
        by simp
      show ?thesis
      proof (cases "2 ^ unat (numBuffers (module sa)) - 1 \<le> bufferMask (module sa)")
        case True
        show ?thesis
          by (rule that(4) [OF several lt True])
            (simp add: gralloc_alloc_framebuffer_def gralloc_alloc_framebuffer_locked_def
              m Let_def ok several small True)
      next
        case free: False
        show ?thesis
        proof (cases "framebuffer (module sa)")
          case None
          show ?thesis
            by (rule that(5) [OF None])
              (simp add: gralloc_alloc_framebuffer_def gralloc_alloc_framebuffer_locked_def
                m Let_def ok several small free None)
        next
          case (Some fb)
          obtain fd0 s1 where d: "syscall K (Dup (fd fb)) sa = (fd0, s1)"
            by fastforce
          obtain p s2 where g: "syscall K Getpid s1 = (p, s2)"
            by fastforce
          have md: "module s2 = module sa"
            using syscall_state(2) [OF d] syscall_state(2) [OF g] by simp
          show ?thesis
            by (rule that(6) [OF several lt free Some d g])
              (simp add: gralloc_alloc_framebuffer_def gralloc_alloc_framebuffer_locked_def
                Let_def m ok several small free Some d g md split: prod.split)
        qed
      qed
    qed
  qed
qed

subsection \<open>Validation\<close>

lemma constructed_validate:
  assumes "constructed P stored"
  shows "validate P stored = 0"
  using assms by (auto simp: constructed_def validate_def sNumInts_def sNumFds_def sMagic_def)



lemma validate_Some_0_iff:
  "validate P (Some hnd) = 0 \<longleftrightarrow>
     (EINVAL P = 0 \<or>
      version hnd = sizeof_native_handle P \<and> numInts hnd = sNumInts
      \<and> numFds hnd = sNumFds \<and> magic hnd = sMagic)"
  by (auto simp: validate_def)


lemma validate_new_private_handle_t:
  "validate P (Some (new_private_handle_t P fd0 size0 flags0 bufferType0 p)) = 0"
  by (simp add: validate_def new_private_handle_t_def)

lemma validate_destructor_private_handle_t:
  "validate P (Some (destructor_private_handle_t hnd)) = - EINVAL P"
  by (simp add: validate_def destructor_private_handle_t_def sMagic_def)

text \<open>
  C4: for every candidate, the null pointer and arbitrary records included, \<open>validate\<close>
  returns 0 exactly when the candidate is not null, its version is the size of the native
  handle header, its \<open>numInts\<close> is 8, its \<open>numFds\<close> is 1 and its magic is
  \<open>0x3141592\<close>; in every other case it returns \<^verbatim>\<open>-EINVAL\<close>. No other field is read.
\<close>

theorem validate_ok_iff:
  assumes "EINVAL P \<noteq> 0"
  shows "(validate P h = 0 \<longleftrightarrow>
            (\<exists>hnd. h = Some hnd \<and> version hnd = sizeof_native_handle P
                   \<and> numInts hnd = 8 \<and> numFds hnd = 1 \<and> magic hnd = 0x3141592))
         \<and> (validate P h \<noteq> 0 \<longrightarrow> validate P h = - EINVAL P)"
proof (cases h)
  case None
  with assms show ?thesis
    by (simp add: validate_def)
next
  case (Some hnd)
  with assms show ?thesis
    by (auto simp: validate_def sNumInts_def sNumFds_def sMagic_def)
qed

theorem validate_ok_iff_witness:
  "EINVAL android_arm \<noteq> 0
   \<and> validate android_arm (Some surface) = 0
   \<and> validate android_arm (Some (surface\<lparr>numInts := 9\<rparr>)) = - 22
   \<and> validate android_arm None = - 22"
proof -
  have h: "EINVAL android_arm \<noteq> 0"
    by (simp add: android_arm_def)
  show ?thesis
    using h validate_ok_iff [OF h, of "Some surface"]
      validate_ok_iff [OF h, of "Some (surface\<lparr>numInts := 9\<rparr>)"]
      validate_ok_iff [OF h, of None]
    by (simp add: surface_def new_private_handle_t_def android_arm_def sNumInts_def
        sNumFds_def sMagic_def)
qed

subsection \<open>What an allocation returns\<close>

lemma alloc_buffer_return_constructed:
  "fst (alloc_buffer_return P K err fd0 size0 flags0 bufferType0 base0 offset0 lockState0 s) = 0
   \<longrightarrow> constructed P (fst (snd (alloc_buffer_return P K err fd0 size0 flags0 bufferType0
                                   base0 offset0 lockState0 s)))"
  by (simp add: alloc_buffer_return_def constructed_def new_private_handle_t_def Let_def
      sNumInts_def sNumFds_def sMagic_def split: prod.split)

lemma try_ashmem_constructed:
  "fst (try_ashmem P K size0 flags0 bufferType0 s) = 0
   \<longrightarrow> constructed P (fst (snd (try_ashmem P K size0 flags0 bufferType0 s)))"
  by (simp add: try_ashmem_def Let_def alloc_buffer_return_constructed split: prod.split)

lemma alloc_from_pool_constructed:
  "fst (alloc_from_pool P K size0 flags0 bufferType0 m s) = 0
   \<longrightarrow> constructed P (fst (snd (alloc_from_pool P K size0 flags0 bufferType0 m s)))"
  by (simp add: alloc_from_pool_def Let_def alloc_buffer_return_constructed split: prod.split)

lemma gralloc_alloc_buffer_constructed:
  "fst (gralloc_alloc_buffer P K dev size0 usage s) = 0
   \<longrightarrow> constructed P (fst (snd (gralloc_alloc_buffer P K dev size0 usage s)))"
  by (simp add: gralloc_alloc_buffer_def Let_def alloc_buffer_return_constructed
      try_ashmem_constructed alloc_from_pool_constructed split: prod.split)

lemma gralloc_alloc_framebuffer_constructed:
  assumes "ENOMEM P \<noteq> 0"
    and "gralloc_alloc_framebuffer P K dev size0 usage s = Some (0, stored, s')"
  shows "constructed P stored"
proof -
  obtain err sa where "ensure_mapped K s = (err, sa)"
    by fastforce
  then show ?thesis
  proof (cases rule: gralloc_alloc_framebuffer_cases [where P = P and dev = dev
        and len = size0 and usage = usage])
    case map_failed
    with assms(2) show ?thesis
      by auto
  next
    case single
    with assms(2) show ?thesis
      using gralloc_alloc_buffer_constructed
        [of P K dev "finfo_line_length (module sa) * info_yres (module sa)"
          "(usage AND NOT (GRALLOC_USAGE_HW_FB P)) OR GRALLOC_USAGE_HW_2D P" sa]
      by simp
  next
    case undefined
    with assms(2) show ?thesis
      by simp
  next
    case full
    with assms show ?thesis
      by simp
  next
    case unmapped
    with assms(2) show ?thesis
      by simp
  next
    case (slot fb fd0 s1 p s2)
    with assms(2) show ?thesis
      by (auto simp: constructed_def new_private_handle_t_def sNumInts_def sNumFds_def
          sMagic_def)
  qed
qed

lemma try_ashmem_nonpos:
  assumes "posix K"
  shows "fst (try_ashmem P K size0 flags0 bufferType0 s) = 0
         \<or> fst (try_ashmem P K size0 flags0 bufferType0 s) <s 0"
proof -
  obtain fd0 s1 where a: "syscall K (Ashmem_create_region ''Buffer'' size0) s = (fd0, s1)"
    by fastforce
  with assms show ?thesis
    by (auto simp: try_ashmem_eq [OF a] alloc_buffer_return_fst dest: syscall_Ashmem_errno)
qed

lemma alloc_from_pool_nonpos:
  assumes "posix K" and "0 <s ENOMEM P"
  shows "fst (alloc_from_pool P K size1 flags0 bufferType0 master_fd s1) = 0
         \<or> fst (alloc_from_pool P K size1 flags0 bufferType0 master_fd s1) <s 0"
proof -
  obtain off s2 where
    alloc: "syscall K (Allocate (if bufferType0 = BUFFER_TYPE_PMEM then sAllocator
                                  else sGPUAllocator) size1) s1 = (off, s2)"
    by fastforce
  then show ?thesis
  proof (cases rule: alloc_from_pool_cases [where P = P and flgs = flags0
        and master_fd = master_fd])
    case no_space
    with assms(2) show ?thesis
      by (simp add: alloc_buffer_return_fst uminus_sless_0)
  next
    case (mapped fd0 s3 r s4 err s5)
    from assms(1) mapped(3,4,5) have "err = 0"
      by (auto split: if_splits dest: syscall_CONNECT(2) syscall_MAP)
    with mapped(6) show ?thesis
      by (simp add: alloc_buffer_return_fst)
  next
    case (unwound fd0 s3 r s4 err s5 r1 s6 r2 s7)
    then show ?thesis
      by simp
  qed
qed

lemma choose_backing_pool:
  assumes "choose_backing P K dev usage s = (PRIV_FLAGS_USES_PMEM, bufferType0)"
    and "context_bufferType dev \<noteq> BUFFER_TYPE_FB"
  shows "bufferType0 \<noteq> BUFFER_TYPE_FB"
  using assms by (auto simp: choose_backing_def PRIV_FLAGS_USES_PMEM_def split: if_splits)

lemma gralloc_alloc_buffer_nonpos:
  assumes "posix K" and "0 <s ENOMEM P" and "context_bufferType dev \<noteq> BUFFER_TYPE_FB"
  shows "fst (gralloc_alloc_buffer P K dev size0 usage s) = 0
         \<or> fst (gralloc_alloc_buffer P K dev size0 usage s) <s 0"
proof -
  obtain flags0 bufferType0 where cb: "choose_backing P K dev usage s = (flags0, bufferType0)"
    by fastforce
  then show ?thesis
  proof (cases rule: gralloc_alloc_buffer_cases [where len = size0])
    case anonymous
    with assms(1) show ?thesis
      by (simp add: try_ashmem_nonpos)
  next
    case (pool err0 master_fd s1)
    with assms(1,2) show ?thesis
      by (simp add: alloc_from_pool_nonpos)
  next
    case (fallback err0 master_fd s1)
    with assms(1) show ?thesis
      by (simp add: try_ashmem_nonpos)
  next
    case (strict err0 master_fd s1)
    from cb strict(1) assms(3) have "bufferType0 \<noteq> BUFFER_TYPE_FB"
      by (auto dest: choose_backing_pool)
    with assms(1) strict(2,3) have "err0 = 0 \<or> err0 <s 0"
      by (auto dest: open_master_nonpos)
    with strict(5) show ?thesis
      by (simp add: alloc_buffer_return_fst)
  qed
qed

lemma descriptor_nonnegative: "0 \<le>s ret (descriptor_reply tr)"
proof -
  have "3 + length tr mod 1000 < 2 ^ 31"
    by (rule less_trans [of _ 1003]) simp_all
  then have "sint (of_nat (3 + length tr mod 1000) :: word32) = int (3 + length tr mod 1000)"
    by (simp only: signed_of_nat) (simp add: signed_take_bit_int_eq_self)
  then show ?thesis
    by (simp add: descriptor_reply_def ok_reply_def word_sle_eq)
qed

lemma posix_failing: "posix (failing F)"
  using descriptor_nonnegative
  by (simp add: posix_def failing_def call_contract_def ioctl_contract_def working_kernel_def
      fail_reply_def ok_reply_def ioctl_reply_def MAP_FAILED_def word_sless_alt
      signed.not_less [symmetric] split: call.split)

lemma posix_working: "posix working"
  by (simp add: working_def posix_failing)

lemma gralloc_alloc_framebuffer_nonpos:
  assumes "posix K" and "0 <s ENOMEM P" and "context_bufferType dev \<noteq> BUFFER_TYPE_FB"
    and "gralloc_alloc_framebuffer P K dev size0 usage s = Some (err, stored, s')"
  shows "err = 0 \<or> err <s 0"
proof -
  obtain e sa where "ensure_mapped K s = (e, sa)"
    by fastforce
  then show ?thesis
  proof (cases rule: gralloc_alloc_framebuffer_cases [where P = P and dev = dev
        and len = size0 and usage = usage])
    case map_failed
    with assms(4) show ?thesis
      by simp
  next
    case single
    with assms(4) show ?thesis
      using gralloc_alloc_buffer_nonpos [OF assms(1,2,3),
          of "finfo_line_length (module sa) * info_yres (module sa)"
          "(usage AND NOT (GRALLOC_USAGE_HW_FB P)) OR GRALLOC_USAGE_HW_2D P" sa]
      by auto
  next
    case undefined
    with assms(4) show ?thesis
      by simp
  next
    case full
    with assms(2,4) show ?thesis
      by (auto simp: uminus_sless_0)
  next
    case unmapped
    with assms(4) show ?thesis
      by simp
  next
    case (slot fb fd0 s1 p s2)
    with assms(4) show ?thesis
      by simp
  qed
qed

text \<open>
  C10: a handle returned by a successful allocation passes \<open>validate\<close> when it is
  returned, on every path: what \<open>gralloc_alloc_buffer\<close> stores when it returns 0
  (anonymous shared memory or a pool), what \<open>gralloc_alloc_framebuffer\<close> stores when it
  returns 0 (a slot of the surface), and what \<open>gralloc_alloc\<close> hands out when it returns 0.
  The version, \<open>numInts\<close> = 8, \<open>numFds\<close> = 1 and the magic are those the constructor
  set: no path changes them.
\<close>

theorem allocated_handle_validates:
  "(gralloc_alloc_buffer P K dev len usage s = (0, stored, s') \<longrightarrow>
      (\<exists>hnd. stored = Some hnd \<and> version hnd = sizeof_native_handle P \<and> numInts hnd = 8
             \<and> numFds hnd = 1 \<and> magic hnd = 0x3141592)
      \<and> validate P stored = 0)
   \<and> (ENOMEM P \<noteq> 0 \<and> gralloc_alloc_framebuffer P K dev len usage s = Some (0, stored, s') \<longrightarrow>
      (\<exists>hnd. stored = Some hnd \<and> version hnd = sizeof_native_handle P \<and> numInts hnd = 8
             \<and> numFds hnd = 1 \<and> magic hnd = 0x3141592)
      \<and> validate P stored = 0)
   \<and> (posix K \<and> 0 <s ENOMEM P \<and> EINVAL P \<noteq> 0 \<and> context_bufferType dev \<noteq> BUFFER_TYPE_FB
       \<and> gralloc_alloc P K dev w h format usage pHandle pStride s
           = Some (0, pHandle', pStride', s') \<longrightarrow>
      (\<exists>hnd. pHandle' = Some (Some hnd) \<and> version hnd = sizeof_native_handle P
             \<and> numInts hnd = 8 \<and> numFds hnd = 1 \<and> magic hnd = 0x3141592
             \<and> validate P (Some hnd) = 0))"
proof (intro conjI impI)
  assume "gralloc_alloc_buffer P K dev len usage s = (0, stored, s')"
  then have c: "constructed P stored"
    using gralloc_alloc_buffer_constructed [of P K dev len usage s] by simp
  then show "\<exists>hnd. stored = Some hnd \<and> version hnd = sizeof_native_handle P \<and> numInts hnd = 8
             \<and> numFds hnd = 1 \<and> magic hnd = 0x3141592"
    by (simp add: constructed_def)
  from c show "validate P stored = 0"
    by (rule constructed_validate)
next
  assume "ENOMEM P \<noteq> 0 \<and> gralloc_alloc_framebuffer P K dev len usage s = Some (0, stored, s')"
  then have c: "constructed P stored"
    by (auto dest: gralloc_alloc_framebuffer_constructed)
  then show "\<exists>hnd. stored = Some hnd \<and> version hnd = sizeof_native_handle P \<and> numInts hnd = 8
             \<and> numFds hnd = 1 \<and> magic hnd = 0x3141592"
    by (simp add: constructed_def)
  from c show "validate P stored = 0"
    by (rule constructed_validate)
next
  assume a: "posix K \<and> 0 <s ENOMEM P \<and> EINVAL P \<noteq> 0 \<and> context_bufferType dev \<noteq> BUFFER_TYPE_FB
       \<and> gralloc_alloc P K dev w h format usage pHandle pStride s
           = Some (0, pHandle', pStride', s')"
  then have px: "posix K" and nm: "0 <s ENOMEM P" and nv: "EINVAL P \<noteq> 0"
    and dv: "context_bufferType dev \<noteq> BUFFER_TYPE_FB"
    and run: "gralloc_alloc P K dev w h format usage pHandle pStride s
           = Some (0, pHandle', pStride', s')"
    by simp_all
  from run nv obtain bpp where ptrs: "pHandle \<noteq> None" "pStride \<noteq> None"
    and bpp: "bytes_per_pixel P format = Some bpp"
    by (auto simp: gralloc_alloc_def split: if_splits option.splits)
  let ?bpr = "(w * bpp + (4 - 1)) AND NOT (4 - 1)"
  let ?inner = "if usage AND GRALLOC_USAGE_HW_FB P \<noteq> 0
                then gralloc_alloc_framebuffer P K dev (?bpr * h) usage s
                else Some (gralloc_alloc_buffer P K dev (?bpr * h) usage s)"
  from run ptrs bpp obtain err stored sa where inner: "?inner = Some (err, stored, sa)"
    and out: "\<not> err <s 0"
      "pHandle' = (case stored of None \<Rightarrow> pHandle | Some hnd \<Rightarrow> Some (Some hnd))"
      "sa = s'"
    by (cases ?inner) (auto simp: gralloc_alloc_def Let_def split: if_splits)
  have "err = 0 \<or> err <s 0"
  proof (cases "usage AND GRALLOC_USAGE_HW_FB P \<noteq> 0")
    case True
    with inner show ?thesis
      using gralloc_alloc_framebuffer_nonpos [OF px nm dv] by auto
  next
    case False
    with inner show ?thesis
      using gralloc_alloc_buffer_nonpos [OF px nm dv, of "?bpr * h" usage s] by auto
  qed
  with out(1) have zero: "err = 0"
    by simp
  have "constructed P stored"
  proof (cases "usage AND GRALLOC_USAGE_HW_FB P \<noteq> 0")
    case True
    with inner zero sless_0_neq_0 [OF nm] show ?thesis
      by (auto dest: gralloc_alloc_framebuffer_constructed)
  next
    case False
    with inner zero show ?thesis
      using gralloc_alloc_buffer_constructed [of P K dev "?bpr * h" usage s] by auto
  qed
  then have v: "validate P stored = 0"
    by (rule constructed_validate)
  from \<open>constructed P stored\<close> obtain hnd where
    hnd: "stored = Some hnd" "version hnd = sizeof_native_handle P"
    "numInts hnd = 8" "numFds hnd = 1" "magic hnd = 0x3141592"
    by (auto simp: constructed_def)
  with out(2) v show "\<exists>hnd. pHandle' = Some (Some hnd) \<and> version hnd = sizeof_native_handle P
             \<and> numInts hnd = 8 \<and> numFds hnd = 1 \<and> magic hnd = 0x3141592
             \<and> validate P (Some hnd) = 0"
    by simp
qed

theorem allocated_handle_validates_witness:
  "posix working \<and> 0 <s ENOMEM android_arm \<and> EINVAL android_arm \<noteq> 0
   \<and> context_bufferType gpu1_device \<noteq> BUFFER_TYPE_FB
   \<and> gralloc_alloc_buffer android_arm working gpu1_device 4096 0 initial
       = (0, Some ashmem_handle,
          initial\<lparr>trace := [(Ashmem_create_region ''Buffer'' 4096, 3), (Getpid, 1000)]\<rparr>)
   \<and> validate android_arm (Some ashmem_handle) = 0
   \<and> gralloc_alloc_framebuffer android_arm working gpu1_device 768000 0x1000 initial
       = Some (0, Some slot_handle, after_slot)
   \<and> validate android_arm (Some slot_handle) = 0
   \<and> gralloc_alloc android_arm working gpu1_device 64 64 1 0x100 (Some None) (Some 0) initial
       = Some (0, Some (Some pool_handle), Some 64, after_pool)
   \<and> validate android_arm (Some pool_handle) = 0"
proof -
  have h: "posix working" "0 <s ENOMEM android_arm" "EINVAL android_arm \<noteq> 0"
    "ENOMEM android_arm \<noteq> 0" "context_bufferType gpu1_device \<noteq> BUFFER_TYPE_FB"
    by (simp_all add: posix_working android_arm_def gpu1_device_def word_sless_alt)
  have r1: "gralloc_alloc_buffer android_arm working gpu1_device 4096 0 initial
       = (0, Some ashmem_handle,
          initial\<lparr>trace := [(Ashmem_create_region ''Buffer'' 4096, 3), (Getpid, 1000)]\<rparr>)"
    by (simp add: run_simps)
  have r2: "gralloc_alloc_framebuffer android_arm working gpu1_device 768000 0x1000 initial
       = Some (0, Some slot_handle, after_slot)"
    by (simp add: run_simps slot_handle_def after_slot_def find_free_slot.simps)
  have r3: "gralloc_alloc android_arm working gpu1_device 64 64 1 0x100 (Some None) (Some 0)
              initial
       = Some (0, Some (Some pool_handle), Some 64, after_pool)"
    by (simp add: run_simps pool_handle_def after_pool_def)
  show ?thesis
    using h r1 r2 r3
      allocated_handle_validates [where P = android_arm and K = working
        and dev = gpu1_device and len = 4096 and usage = 0 and s = initial
        and stored = "Some ashmem_handle"
        and s' = "initial\<lparr>trace := [(Ashmem_create_region ''Buffer'' 4096, 3),
                                    (Getpid, 1000)]\<rparr>"]
      allocated_handle_validates [where P = android_arm and K = working
        and dev = gpu1_device and len = 768000 and usage = "0x1000" and s = initial
        and stored = "Some slot_handle" and s' = after_slot]
      allocated_handle_validates [where P = android_arm and K = working
        and dev = gpu1_device and w = 64 and h = 64 and format = 1 and usage = "0x100"
        and pHandle = "Some None" and pStride = "Some 0" and s = initial
        and pHandle' = "Some (Some pool_handle)" and pStride' = "Some 64" and s' = after_pool]
    by simp
qed

subsection \<open>A texture buffer from the primary pool\<close>

lemma syscall_ret:
  assumes "syscall K c s = (r, s')"
  shows "r = ret (kernel K (trace s) c)"
  using assms by (auto simp: syscall_def Let_def)

lemma pool_available_calls:
  assumes "pool_available K"
  shows "syscall K (Open ''/dev/pmem'') s = (r, s') \<Longrightarrow> 0 \<le>s r"
    and "syscall K (Mmap len fd0) s = (r, s') \<Longrightarrow> r \<noteq> MAP_FAILED"
    and "syscall K (Allocate sAllocator len) s = (r, s') \<Longrightarrow> 0 \<le>s r"
    and "syscall K (Ioctl_PMEM_CONNECT fd0 master_fd) s = (r, s') \<Longrightarrow> 0 \<le>s fd0 \<Longrightarrow> r = 0"
    and "syscall K (Ioctl_PMEM_MAP fd0 off len) s = (r, s') \<Longrightarrow> 0 \<le>s fd0 \<Longrightarrow> r = 0"
  using assms by (auto simp: pool_available_def dest!: syscall_ret)

lemma init_pmem_area_available:
  assumes "pool_available K" and "init_pmem_area K BUFFER_TYPE_PMEM s = (e, s1)"
  shows "0 \<le>s pmem_master (module s1)"
proof -
  obtain f sa where o: "syscall K (Open ''/dev/pmem'') s = (f, sa)"
    by fastforce
  with assms(1) have f: "0 \<le>s f"
    by (rule pool_available_calls(1))
  obtain b s2 where mm: "syscall K (Mmap (allocator_size K sAllocator) f) sa = (b, s2)"
    by fastforce
  with assms(1) have "b \<noteq> MAP_FAILED"
    by (rule pool_available_calls(2))
  with assms(2) o f mm show ?thesis
    by (auto simp: init_pmem_area_def open_device_def device_path_def Let_def)
qed

lemma open_master_available:
  assumes "pool_available K"
    and "pmem_master (module s) = - 1 \<or> 0 \<le>s pmem_master (module s)"
    and "open_master K BUFFER_TYPE_PMEM s = (e, m, s1)"
  shows "0 \<le>s m"
  using assms
  by (auto simp: open_master_def master_fd_of_def Let_def split: prod.splits if_splits
      dest: init_pmem_area_available)

lemma alloc_from_pool_available:
  assumes "pool_available K"
  shows "\<exists>hnd s'. alloc_from_pool P K len PRIV_FLAGS_USES_PMEM BUFFER_TYPE_PMEM master_fd s
                  = (0, Some hnd, s')
           \<and> flags hnd = PRIV_FLAGS_USES_PMEM \<and> bufferType hnd = BUFFER_TYPE_PMEM
           \<and> size' hnd = len \<and> 0 \<le>s fd hnd"
proof -
  obtain off s2 where
    alloc: "syscall K (Allocate (if BUFFER_TYPE_PMEM = BUFFER_TYPE_PMEM then sAllocator
                                  else sGPUAllocator) len) s = (off, s2)"
    by fastforce
  with assms have off: "0 \<le>s off"
    by (auto dest: pool_available_calls(3))
  from alloc show ?thesis
  proof (cases rule: alloc_from_pool_cases [where P = P and flgs = PRIV_FLAGS_USES_PMEM
        and master_fd = master_fd])
    case no_space
    with off show ?thesis
      by (simp add: signed.not_less [symmetric])
  next
    case (mapped fd0 s3 r s4 err s5)
    from mapped(2) assms have fd0: "0 \<le>s fd0"
      by (auto simp: open_device_def device_path_def dest: pool_available_calls(1))
    with mapped(3) assms have "r = 0"
      by (auto dest: pool_available_calls(4))
    with mapped(4) fd0 assms have "err = 0"
      by (auto dest: pool_available_calls(5))
    obtain p s6 where "syscall K Getpid s5 = (p, s6)"
      by fastforce
    with mapped(6) \<open>err = 0\<close> fd0 show ?thesis
      by (simp add: alloc_buffer_return_success new_private_handle_t_def)
  next
    case (unwound fd0 s3 r s4 err s5 r1 s6 r2 s7)
    from unwound(2) assms have fd0: "0 \<le>s fd0"
      by (auto simp: open_device_def device_path_def dest: pool_available_calls(1))
    with unwound(3) assms have "r = 0"
      by (auto dest: pool_available_calls(4))
    with unwound(4) fd0 assms have "err = 0"
      by (auto dest: pool_available_calls(5))
    with unwound(5) show ?thesis
      by simp
  qed
qed

lemma pool_available_working: "pool_available working"
  using descriptor_nonnegative
  by (simp add: pool_available_def working_def failing_def working_kernel_def ok_reply_def
      ioctl_reply_def MAP_FAILED_def word_sless_alt word_sle_eq signed.not_less [symmetric])

text \<open>
  C3, as the code has it: allocating a 64 by 64 buffer in \<^verbatim>\<open>RGBA_8888\<close> with texture
  usage, when the primary pool is available, succeeds with a handle that uses the pool
  (\<^verbatim>\<open>PRIV_FLAGS_USES_PMEM\<close>, buffer type \<^verbatim>\<open>BUFFER_TYPE_PMEM\<close>) and passes \<open>validate\<close>;
  the stride returned is 64, the row of 256 bytes counted in pixels of 4 bytes.
\<close>

theorem texture_64_from_pool:
  assumes "pool_available K"
    and "pmem_master (module s) = - 1 \<or> 0 \<le>s pmem_master (module s)"
    and "usage AND (GRALLOC_USAGE_HW_2D P OR GRALLOC_USAGE_HW_RENDER P) = 0"
    and "usage AND GRALLOC_USAGE_HW_TEXTURE P \<noteq> 0"
    and "usage AND GRALLOC_USAGE_HW_FB P = 0"
    and "format = HAL_PIXEL_FORMAT_RGBA_8888 P"
  shows "\<exists>hnd s'. gralloc_alloc P K dev 64 64 format usage (Some old) (Some stride) s
                  = Some (0, Some (Some hnd), Some 64, s')
           \<and> usesPhysicallyContiguousMemory hnd \<and> bufferType hnd = BUFFER_TYPE_PMEM
           \<and> validate P (Some hnd) = 0"
proof -
  have cb: "choose_backing P K dev usage s = (PRIV_FLAGS_USES_PMEM, BUFFER_TYPE_PMEM)"
    using assms(3,4) by (simp add: choose_backing_def)
  let ?len = "roundUpToPageSize P 16384"
  have "\<exists>hnd s'. gralloc_alloc_buffer P K dev 16384 usage s = (0, Some hnd, s')
           \<and> flags hnd = PRIV_FLAGS_USES_PMEM \<and> bufferType hnd = BUFFER_TYPE_PMEM"
    using cb
  proof (cases rule: gralloc_alloc_buffer_cases [where len = 16384])
    case anonymous
    then show ?thesis
      by (simp add: PRIV_FLAGS_USES_PMEM_def)
  next
    case (pool err0 master_fd s1)
    with alloc_from_pool_available [OF assms(1), of P ?len master_fd s1] show ?thesis
      by auto
  next
    case (fallback err0 master_fd s1)
    with open_master_available [OF assms(1,2)] show ?thesis
      by (auto simp: signed.not_less [symmetric])
  next
    case (strict err0 master_fd s1)
    with open_master_available [OF assms(1,2)] show ?thesis
      by (auto simp: signed.not_less [symmetric])
  qed
  then obtain hnd s' where run: "gralloc_alloc_buffer P K dev 16384 usage s = (0, Some hnd, s')"
    and hnd: "flags hnd = PRIV_FLAGS_USES_PMEM" "bufferType hnd = BUFFER_TYPE_PMEM"
    by blast
  from run have "constructed P (Some hnd)"
    using gralloc_alloc_buffer_constructed [of P K dev 16384 usage s] by simp
  then have "validate P (Some hnd) = 0"
    by (rule constructed_validate)
  moreover have "gralloc_alloc P K dev 64 64 format usage (Some old) (Some stride) s
                  = Some (0, Some (Some hnd), Some 64, s')"
    using assms(5,6) run by (simp add: gralloc_alloc_def bytes_per_pixel_def)
  ultimately show ?thesis
    using hnd by (auto simp: usesPhysicallyContiguousMemory_def PRIV_FLAGS_USES_PMEM_def)
qed

theorem texture_64_from_pool_witness:
  "pool_available working
   \<and> pmem_master (module initial) = - 1
   \<and> 0x100 AND (GRALLOC_USAGE_HW_2D android_arm OR GRALLOC_USAGE_HW_RENDER android_arm) = 0
   \<and> 0x100 AND GRALLOC_USAGE_HW_TEXTURE android_arm \<noteq> 0
   \<and> 0x100 AND GRALLOC_USAGE_HW_FB android_arm = 0
   \<and> 1 = HAL_PIXEL_FORMAT_RGBA_8888 android_arm
   \<and> gralloc_alloc android_arm working gpu1_device 64 64 1 0x100 (Some None) (Some 0) initial
       = Some (0, Some (Some pool_handle), Some 64, after_pool)
   \<and> usesPhysicallyContiguousMemory pool_handle
   \<and> bufferType pool_handle = BUFFER_TYPE_PMEM
   \<and> validate android_arm (Some pool_handle) = 0"
proof -
  have h1: "pool_available working"
    by (rule pool_available_working)
  have h2: "pmem_master (module initial) = - 1 \<or> 0 \<le>s pmem_master (module initial)"
    by (simp add: initial_def HAL_MODULE_INFO_SYM_def)
  have h3: "0x100 AND (GRALLOC_USAGE_HW_2D android_arm OR GRALLOC_USAGE_HW_RENDER android_arm)
            = 0"
    by (simp add: android_arm_def)
  have h4: "0x100 AND GRALLOC_USAGE_HW_TEXTURE android_arm \<noteq> 0"
    by (simp add: android_arm_def)
  have h5: "0x100 AND GRALLOC_USAGE_HW_FB android_arm = 0"
    by (simp add: android_arm_def)
  have h6: "1 = HAL_PIXEL_FORMAT_RGBA_8888 android_arm"
    by (simp add: android_arm_def)
  have run: "gralloc_alloc android_arm working gpu1_device 64 64 1 0x100 (Some None) (Some 0)
               initial
             = Some (0, Some (Some pool_handle), Some 64, after_pool)"
    by (simp add: run_simps pool_handle_def after_pool_def)
  from texture_64_from_pool [OF h1 h2 h3 h4 h5 h6, of gpu1_device None 0] run
  have "usesPhysicallyContiguousMemory pool_handle \<and> bufferType pool_handle = BUFFER_TYPE_PMEM
        \<and> validate android_arm (Some pool_handle) = 0"
    by auto
  with h1 h3 h4 h5 h6 run show ?thesis
    by (simp add: initial_def HAL_MODULE_INFO_SYM_def)
qed

text \<open>
  The run of C3 on the working kernel: the stride that \<open>gralloc_alloc\<close> returns for the
  64 by 64 buffer is 64, not 256.
\<close>

theorem texture_64_counterexample:
  "gralloc_alloc android_arm working gpu1_device 64 64 (HAL_PIXEL_FORMAT_RGBA_8888 android_arm)
     (GRALLOC_USAGE_HW_TEXTURE android_arm) (Some None) (Some 0) initial
   = Some (0, Some (Some pool_handle), Some 64, after_pool)
   \<and> Some (64 :: word32) \<noteq> Some 256"
  by (simp add: run_simps pool_handle_def after_pool_def)

subsection \<open>The arguments of an allocation\<close>

text \<open>
  C9, as the code has it: \<open>gralloc_alloc\<close> fails with \<^verbatim>\<open>-EINVAL\<close>, and changes nothing,
  when an output pointer is null or the pixel format is none of the five formats of the
  \<^verbatim>\<open>switch\<close>. It does so for every width and height: the two are not checked.
\<close>

theorem gralloc_alloc_invalid_argument:
  assumes "pHandle = None \<or> pStride = None
           \<or> format \<notin> {HAL_PIXEL_FORMAT_RGBA_8888 P, HAL_PIXEL_FORMAT_BGRA_8888 P,
                          HAL_PIXEL_FORMAT_RGB_565 P, HAL_PIXEL_FORMAT_RGBA_5551 P,
                          HAL_PIXEL_FORMAT_RGBA_4444 P}"
    and "0 <s EINVAL P"
  shows "gralloc_alloc P K dev w h format usage pHandle pStride s
         = Some (- EINVAL P, pHandle, pStride, s)
         \<and> - EINVAL P <s 0"
  using assms
  by (auto simp: gralloc_alloc_def bytes_per_pixel_def uminus_sless_0)

theorem gralloc_alloc_invalid_argument_witness:
  "(3 :: word32) \<notin> {1, 5, 4, 6, 7} \<and> 0 <s EINVAL android_arm
   \<and> gralloc_alloc android_arm working gpu1_device 64 64 3 0 (Some None) (Some 0) initial
       = Some (- 22, Some None, Some 0, initial)"
proof -
  have h1: "Some None = None \<or> Some (0 :: word32) = None
            \<or> (3 :: word32) \<notin> {HAL_PIXEL_FORMAT_RGBA_8888 android_arm,
                   HAL_PIXEL_FORMAT_BGRA_8888 android_arm, HAL_PIXEL_FORMAT_RGB_565 android_arm,
                   HAL_PIXEL_FORMAT_RGBA_5551 android_arm,
                   HAL_PIXEL_FORMAT_RGBA_4444 android_arm}"
    by (simp add: android_arm_def)
  have h2: "0 <s EINVAL android_arm"
    by (simp add: android_arm_def word_sless_alt)
  show ?thesis
    using h2 gralloc_alloc_invalid_argument [OF h1 h2, of working gpu1_device 64 64 0 initial]
    by (simp add: android_arm_def)
qed

text \<open>
  A run that C9 excludes: with width \<open>-1\<close> and height \<open>-1\<close> in \<^verbatim>\<open>RGBA_8888\<close>, the row
  is \<open>0xFFFFFFFC\<close> bytes, the size wraps around to 4 bytes, and \<open>gralloc_alloc\<close> succeeds
  with a page of anonymous shared memory.
\<close>

theorem gralloc_alloc_unchecked_counterexample:
  "gralloc_alloc android_arm working gpu1_device (- 1) (- 1)
     (HAL_PIXEL_FORMAT_RGBA_8888 android_arm) 0 (Some None) (Some 0) initial
   = Some (0, Some (Some ashmem_handle), Some 0x3FFFFFFF,
           initial\<lparr>trace := [(Ashmem_create_region ''Buffer'' 4096, 3), (Getpid, 1000)]\<rparr>)"
  by (simp add: run_simps)

subsection \<open>A failure after the extent was reserved\<close>

lemma init_call_not_Allocate: "init_call c \<Longrightarrow> \<not> is_Allocate c"
  by (cases c) simp_all

lemma alloc_buffer_return_trace:
  assumes "alloc_buffer_return P K err fd0 len flgs type base0 off lck s = (e, stored, s')"
  shows "trace s' = trace s \<or> (\<exists>p. trace s' = trace s @ [(Getpid, p)])"
  using assms
  by (auto simp: alloc_buffer_return_def Let_def split: if_splits prod.splits
      dest!: syscall_state(1))

lemma try_ashmem_trace:
  assumes "try_ashmem P K len flgs type s = (e, stored, s')"
  shows "\<exists>ev. trace s' = trace s @ ev \<and> (\<forall>x\<in>set ev. \<not> is_Allocate (fst x))"
proof -
  obtain fd0 s1 where a: "syscall K (Ashmem_create_region ''Buffer'' len) s = (fd0, s1)"
    by fastforce
  from assms show ?thesis
    unfolding try_ashmem_eq [OF a]
    using syscall_state(1) [OF a] by (auto dest!: alloc_buffer_return_trace)
qed

lemma open_master_no_Allocate:
  assumes "open_master K type s = (e, m, s1)"
  shows "\<exists>ev. trace s1 = trace s @ ev \<and> (\<forall>x\<in>set ev. \<not> is_Allocate (fst x))"
  using open_master_trace [OF assms] init_call_not_Allocate by blast

lemma open_device_pool:
  assumes "type \<noteq> BUFFER_TYPE_FB" and "open_device K type s = (f, s1)"
  shows "\<exists>path. trace s1 = trace s @ [(Open path, f)]"
  using assms
  by (cases type) (auto simp: open_device_def device_path_def dest!: syscall_state(1))

lemma alloc_from_pool_unwinds:
  assumes "posix K" and "type \<noteq> BUFFER_TYPE_FB"
    and "alloc_from_pool P K len flgs type master_fd s = (err, stored, s')"
    and "err \<noteq> 0"
  shows "\<exists>off rest. trace s' = trace s @ (Allocate (if type = BUFFER_TYPE_PMEM then sAllocator
                                                   else sGPUAllocator) len, off) # rest
           \<and> (\<forall>x\<in>set rest. \<not> is_Allocate (fst x))
           \<and> (0 \<le>s off \<longrightarrow> err <s 0 \<and> stored = None
                \<and> (\<exists>path fd0 mid r1 r2.
                      rest = (Open path, fd0) # mid
                             @ [(Close fd0, r1),
                                (Deallocate (if type = BUFFER_TYPE_PMEM then sAllocator
                                             else sGPUAllocator) off, r2)]))"
proof -
  let ?a = "if type = BUFFER_TYPE_PMEM then sAllocator else sGPUAllocator"
  obtain off s2 where alloc: "syscall K (Allocate ?a len) s = (off, s2)"
    by fastforce
  note t2 = syscall_state(1) [OF alloc]
  from alloc show ?thesis
  proof (cases rule: alloc_from_pool_cases [where P = P and flgs = flgs
        and master_fd = master_fd])
    case no_space
    with assms(3) t2 show ?thesis
      by (auto simp: signed.not_less [symmetric] dest!: alloc_buffer_return_trace)
  next
    case (mapped fd0 s3 r s4 err1 s5)
    from assms(1) mapped(3,4,5) have "err1 = 0"
      by (auto split: if_splits dest: syscall_CONNECT(2) syscall_MAP)
    with mapped(6) have "fst (alloc_from_pool P K len flgs type master_fd s) = 0"
      by (simp add: alloc_buffer_return_fst)
    with assms(3,4) show ?thesis
      by simp
  next
    case (unwound fd0 s3 r s4 err1 s5 r1 s6 r2 s7)
    from assms(2) unwound(2) obtain path where t3: "trace s3 = trace s2 @ [(Open path, fd0)]"
      by (auto dest: open_device_pool)
    note t4 = syscall_state(1) [OF unwound(3)]
    from unwound(4) have
      t5: "trace s5 = trace s4 \<or> trace s5 = trace s4 @ [(Ioctl_PMEM_MAP fd0 off len, err1)]"
      by (auto split: if_splits dest!: syscall_state(1))
    note t6 = syscall_state(1) [OF unwound(6)]
    note t7 = syscall_state(1) [OF unwound(7)]
    from unwound(8) assms(3) have res: "err = err1" "stored = None" "s' = s7"
      by simp_all
    have shape: ?thesis
      if "trace s7 = trace s @ (Allocate ?a len, off)
            # ((Open path, fd0) # mid @ [(Close fd0, r1), (Deallocate ?a off, r2)])"
        and "\<forall>x\<in>set mid. \<not> is_Allocate (fst x)"
      for mid
    proof -
      let ?rest = "(Open path, fd0) # mid @ [(Close fd0, r1), (Deallocate ?a off, r2)]"
      from that(2) have "\<forall>x\<in>set ?rest. \<not> is_Allocate (fst x)"
        by simp
      moreover have "\<exists>path fd0 mid r1 r2.
          ?rest = (Open path, fd0) # mid @ [(Close fd0, r1), (Deallocate ?a off, r2)]"
        by blast
      ultimately have
        "trace s' = trace s @ (Allocate ?a len, off) # ?rest
         \<and> (\<forall>x\<in>set ?rest. \<not> is_Allocate (fst x))
         \<and> (0 \<le>s off \<longrightarrow> err <s 0 \<and> stored = None
              \<and> (\<exists>path fd0 mid r1 r2.
                    ?rest = (Open path, fd0) # mid
                            @ [(Close fd0, r1), (Deallocate ?a off, r2)]))"
        using that(1) res unwound(5) by simp
      then show ?thesis
        by blast
    qed
    from t5 show ?thesis
    proof
      assume "trace s5 = trace s4"
      with t2 t3 t4 t6 t7 show ?thesis
        by (intro shape [of "[(Ioctl_PMEM_CONNECT fd0 master_fd, r)]"]) simp_all
    next
      assume "trace s5 = trace s4 @ [(Ioctl_PMEM_MAP fd0 off len, err1)]"
      with t2 t3 t4 t6 t7 show ?thesis
        by (intro shape [of "[(Ioctl_PMEM_CONNECT fd0 master_fd, r),
                              (Ioctl_PMEM_MAP fd0 off len, err1)]"]) simp_all
    qed
  qed
qed

lemma error_unwinds:
  assumes "posix K" and "context_bufferType dev \<noteq> BUFFER_TYPE_FB"
    and "gralloc_alloc_buffer P K dev len usage s = (err, stored, s')"
    and "trace s' = trace s @ new"
    and "(Allocate a n, off) \<in> set new" and "0 \<le>s off"
    and "err \<noteq> 0"
  shows "err <s 0 \<and> stored = None
         \<and> (\<exists>before path fd0 mid r1 r2.
               new = before @ [(Allocate a n, off), (Open path, fd0)] @ mid
                     @ [(Close fd0, r1), (Deallocate a off, r2)])"
proof -
  obtain flgs type where cb: "choose_backing P K dev usage s = (flgs, type)"
    by fastforce
  have none: False
    if "trace s' = trace s @ ev" and "\<forall>x\<in>set ev. \<not> is_Allocate (fst x)" for ev
  proof -
    from that(1) assms(4) have "new = ev"
      by simp
    with that(2) assms(5) show False
      by auto
  qed
  from cb show ?thesis
  proof (cases rule: gralloc_alloc_buffer_cases [where len = len])
    case anonymous
    with assms(3) have "try_ashmem P K (roundUpToPageSize P len) 0 type s = (err, stored, s')"
      by simp
    from try_ashmem_trace [OF this] none show ?thesis
      by blast
  next
    case (pool err0 master_fd s1)
    from cb pool(1) assms(2) have type: "type \<noteq> BUFFER_TYPE_FB"
      by (auto dest: choose_backing_pool)
    from pool(2) obtain ev where ev: "trace s1 = trace s @ ev"
      "\<forall>x\<in>set ev. \<not> is_Allocate (fst x)"
      using open_master_no_Allocate by blast
    let ?a = "if type = BUFFER_TYPE_PMEM then sAllocator else sGPUAllocator"
    let ?len = "roundUpToPageSize P len"
    from pool(4) assms(3) have
      "alloc_from_pool P K ?len PRIV_FLAGS_USES_PMEM type master_fd s1 = (err, stored, s')"
      by simp
    from alloc_from_pool_unwinds [OF assms(1) type this assms(7)]
    obtain off1 rest where tr: "trace s' = trace s1 @ (Allocate ?a ?len, off1) # rest"
      and rest: "\<forall>x\<in>set rest. \<not> is_Allocate (fst x)"
      and unw: "0 \<le>s off1 \<longrightarrow> err <s 0 \<and> stored = None
                \<and> (\<exists>path fd0 mid r1 r2.
                      rest = (Open path, fd0) # mid
                             @ [(Close fd0, r1), (Deallocate ?a off1, r2)])"
      by blast
    from tr ev(1) assms(4) have new: "new = ev @ (Allocate ?a ?len, off1) # rest"
      by simp
    with assms(5) ev(2) rest have same: "a = ?a" "n = ?len" "off = off1"
      by auto
    with unw assms(6) obtain path fd0 mid r1 r2 where
      res: "err <s 0" "stored = None"
      and "rest = (Open path, fd0) # mid @ [(Close fd0, r1), (Deallocate a off, r2)]"
      by auto
    with new same have
      "new = ev @ [(Allocate a n, off), (Open path, fd0)] @ mid
             @ [(Close fd0, r1), (Deallocate a off, r2)]"
      by simp
    with res show ?thesis
      by blast
  next
    case (fallback err0 master_fd s1)
    from fallback(2) obtain ev where ev: "trace s1 = trace s @ ev"
      "\<forall>x\<in>set ev. \<not> is_Allocate (fst x)"
      using open_master_no_Allocate by blast
    from fallback(5) assms(3) have
      "try_ashmem P K (roundUpToPageSize P len) 0 type s1 = (err, stored, s')"
      by simp
    from try_ashmem_trace [OF this] obtain ev1 where "trace s' = trace s1 @ ev1"
      "\<forall>x\<in>set ev1. \<not> is_Allocate (fst x)"
      by blast
    with ev have False
      by (intro none [of "ev @ ev1"]) auto
    then show ?thesis ..
  next
    case (strict err0 master_fd s1)
    from strict(2) obtain ev where ev: "trace s1 = trace s @ ev"
      "\<forall>x\<in>set ev. \<not> is_Allocate (fst x)"
      using open_master_no_Allocate by blast
    from strict(5) assms(3) have
      "alloc_buffer_return P K err0 (- 1) (roundUpToPageSize P len) PRIV_FLAGS_USES_PMEM
         type 0 0 0 s1 = (err, stored, s')"
      by simp
    from alloc_buffer_return_trace [OF this] show ?thesis
    proof
      assume "trace s' = trace s1"
      with ev have False
        by (intro none [of ev]) auto
      then show ?thesis ..
    next
      assume "\<exists>p. trace s' = trace s1 @ [(Getpid, p)]"
      then obtain p where "trace s' = trace s1 @ [(Getpid, p)]" ..
      with ev have False
        by (intro none [of "ev @ [(Getpid, p)]"]) auto
      then show ?thesis ..
    qed
  qed
qed

lemma init_pmem_area_opened:
  assumes "init_pmem_area K type s = (e, s1)"
    and "master_fd_of type (module s) = - 1"
    and "0 \<le>s master_fd_of type (module s1)"
  shows "\<exists>ev. trace s1 = trace s @ ev \<and> (\<forall>x\<in>set ev. pool_step (fst x) \<longrightarrow> \<not> snd x <s 0)"
proof -
  obtain f sa where od: "open_device K type s = (f, sa)"
    by fastforce
  have m: "module sa = module s"
    using od by (rule open_device_module)
  show ?thesis
  proof (cases "0 \<le>s f")
    case False
    with assms(1) od have "s1 = sa"
      by (auto simp: init_pmem_area_def Let_def)
    with m assms(2,3) show ?thesis
      by simp
  next
    case True
    then have f: "\<not> f <s 0"
      by (simp add: signed.not_less)
    from od f have "\<exists>ev. trace sa = trace s @ ev
        \<and> (\<forall>x\<in>set ev. pool_step (fst x) \<longrightarrow> \<not> snd x <s 0)"
      by (cases type) (auto simp: open_device_def device_path_def dest!: syscall_state(1))
    then obtain ev where ev: "trace sa = trace s @ ev"
      "\<forall>x\<in>set ev. pool_step (fst x) \<longrightarrow> \<not> snd x <s 0"
      by blast
    from assms(1) od True ev show ?thesis
      by (auto simp: init_pmem_area_def Let_def split: prod.splits if_splits
          dest!: syscall_state(1))
  qed
qed

lemma open_master_opened:
  assumes "open_master K type s = (e, m, s1)" and "0 \<le>s m"
  shows "\<exists>ev. trace s1 = trace s @ ev
           \<and> (\<forall>x\<in>set ev. \<not> is_Allocate (fst x))
           \<and> (\<forall>x\<in>set ev. pool_step (fst x) \<longrightarrow> \<not> snd x <s 0)"
proof (cases "master_fd_of type (module s) = - 1")
  case True
  with assms(1) obtain e1 where i: "init_pmem_area K type s = (e1, s1)"
    and m: "m = master_fd_of type (module s1)"
    by (auto simp: open_master_def Let_def split: prod.splits)
  from init_pmem_area_opened [OF i True] m assms(2) obtain ev where
    ev: "trace s1 = trace s @ ev" "\<forall>x\<in>set ev. pool_step (fst x) \<longrightarrow> \<not> snd x <s 0"
    by blast
  from open_master_no_Allocate [OF assms(1)] ev(1) have "\<forall>x\<in>set ev. \<not> is_Allocate (fst x)"
    by auto
  with ev show ?thesis
    by blast
next
  case False
  with assms(1) have "s1 = s"
    by (auto simp: open_master_def Let_def)
  then show ?thesis
    by simp
qed

lemma alloc_from_pool_success_steps:
  assumes "posix K" and "type \<noteq> BUFFER_TYPE_FB"
    and "alloc_from_pool P K len flgs type master_fd s = (0, stored, s')"
  shows "\<exists>off rest. trace s' = trace s @ (Allocate (if type = BUFFER_TYPE_PMEM then sAllocator
                                                   else sGPUAllocator) len, off) # rest
           \<and> (\<forall>x\<in>set rest. \<not> is_Allocate (fst x))
           \<and> (0 \<le>s off \<longrightarrow> (\<forall>x\<in>set rest. pool_step (fst x) \<longrightarrow> \<not> snd x <s 0))"
proof -
  let ?a = "if type = BUFFER_TYPE_PMEM then sAllocator else sGPUAllocator"
  obtain off s2 where alloc: "syscall K (Allocate ?a len) s = (off, s2)"
    by fastforce
  note t2 = syscall_state(1) [OF alloc]
  from alloc show ?thesis
  proof (cases rule: alloc_from_pool_cases [where P = P and flgs = flgs
        and master_fd = master_fd])
    case no_space
    with assms(3) t2 show ?thesis
      by (auto simp: signed.not_less [symmetric] dest!: alloc_buffer_return_trace)
  next
    case (mapped fd0 s3 r s4 err1 s5)
    from assms(2) mapped(2) obtain path where t3: "trace s3 = trace s2 @ [(Open path, fd0)]"
      by (auto dest: open_device_pool)
    note t4 = syscall_state(1) [OF mapped(3)]
    have r: "\<not> r <s 0"
    proof
      assume "r <s 0"
      with assms(1) mapped(3,4) have "err1 <s 0"
        by (auto dest: syscall_CONNECT(2))
      with mapped(5) show False
        by simp
    qed
    with assms(1) mapped(3) have fd0: "\<not> fd0 <s 0"
      by (auto dest: syscall_CONNECT(3))
    from r mapped(4) have t5: "trace s5 = trace s4 @ [(Ioctl_PMEM_MAP fd0 off len, err1)]"
      by (auto dest!: syscall_state(1))
    from mapped(6) assms(3) have
      "alloc_buffer_return P K err1 fd0 len flgs type
         (if type = BUFFER_TYPE_PMEM then pmem_master_base (module s)
          else gpu_master_base (module s)) off LOCK_STATE_MAPPED s5 = (0, stored, s')"
      by simp
    from alloc_buffer_return_trace [OF this]
    have "trace s' = trace s5 \<or> (\<exists>p. trace s' = trace s5 @ [(Getpid, p)])" .
    with t2 t3 t4 t5 r fd0 mapped(5) show ?thesis
      by auto
  next
    case (unwound fd0 s3 r s4 err1 s5 r1 s6 r2 s7)
    with assms(3) show ?thesis
      by auto
  qed
qed

lemma failed_step_is_error:
  assumes "posix K" and "context_bufferType dev \<noteq> BUFFER_TYPE_FB"
    and "gralloc_alloc_buffer P K dev len usage s = (err, stored, s')"
    and "trace s' = trace s @ new"
    and "(Allocate a n, off) \<in> set new" and "0 \<le>s off"
    and "(c, r) \<in> set new" and "pool_step c" and "r <s 0"
  shows "err \<noteq> 0"
proof
  assume zero: "err = 0"
  obtain flgs type where cb: "choose_backing P K dev usage s = (flgs, type)"
    by fastforce
  have none: False
    if "trace s' = trace s @ ev" and "\<forall>x\<in>set ev. \<not> is_Allocate (fst x)" for ev
  proof -
    from that(1) assms(4) have "new = ev"
      by simp
    with that(2) assms(5) show False
      by auto
  qed
  from cb show False
  proof (cases rule: gralloc_alloc_buffer_cases [where len = len])
    case anonymous
    with assms(3) have "try_ashmem P K (roundUpToPageSize P len) 0 type s = (err, stored, s')"
      by simp
    from try_ashmem_trace [OF this] none show ?thesis
      by blast
  next
    case (pool err0 master_fd s1)
    from cb pool(1) assms(2) have type: "type \<noteq> BUFFER_TYPE_FB"
      by (auto dest: choose_backing_pool)
    from open_master_opened [OF pool(2,3)] obtain ev where ev: "trace s1 = trace s @ ev"
      "\<forall>x\<in>set ev. \<not> is_Allocate (fst x)"
      "\<forall>x\<in>set ev. pool_step (fst x) \<longrightarrow> \<not> snd x <s 0"
      by blast
    let ?a = "if type = BUFFER_TYPE_PMEM then sAllocator else sGPUAllocator"
    let ?len = "roundUpToPageSize P len"
    from pool(4) assms(3) zero have
      "alloc_from_pool P K ?len PRIV_FLAGS_USES_PMEM type master_fd s1 = (0, stored, s')"
      by simp
    from alloc_from_pool_success_steps [OF assms(1) type this]
    obtain off1 rest where tr: "trace s' = trace s1 @ (Allocate ?a ?len, off1) # rest"
      and rest: "\<forall>x\<in>set rest. \<not> is_Allocate (fst x)"
      and steps: "0 \<le>s off1 \<longrightarrow> (\<forall>x\<in>set rest. pool_step (fst x) \<longrightarrow> \<not> snd x <s 0)"
      by blast
    from tr ev(1) assms(4) have new: "new = ev @ (Allocate ?a ?len, off1) # rest"
      by simp
    with assms(5) ev(2) rest have "off = off1"
      by auto
    with steps assms(6) have "\<forall>x\<in>set rest. pool_step (fst x) \<longrightarrow> \<not> snd x <s 0"
      by simp
    with ev(3) new have "\<forall>x\<in>set new. pool_step (fst x) \<longrightarrow> \<not> snd x <s 0"
      by auto
    with assms(7,8,9) show ?thesis
      by auto
  next
    case (fallback err0 master_fd s1)
    from fallback(2) obtain ev where ev: "trace s1 = trace s @ ev"
      "\<forall>x\<in>set ev. \<not> is_Allocate (fst x)"
      using open_master_no_Allocate by blast
    from fallback(5) assms(3) have
      "try_ashmem P K (roundUpToPageSize P len) 0 type s1 = (err, stored, s')"
      by simp
    from try_ashmem_trace [OF this] obtain ev1 where "trace s' = trace s1 @ ev1"
      "\<forall>x\<in>set ev1. \<not> is_Allocate (fst x)"
      by blast
    with ev show ?thesis
      by (intro none [of "ev @ ev1"]) auto
  next
    case (strict err0 master_fd s1)
    from strict(2) obtain ev where ev: "trace s1 = trace s @ ev"
      "\<forall>x\<in>set ev. \<not> is_Allocate (fst x)"
      using open_master_no_Allocate by blast
    from strict(5) assms(3) have
      "alloc_buffer_return P K err0 (- 1) (roundUpToPageSize P len) PRIV_FLAGS_USES_PMEM
         type 0 0 0 s1 = (err, stored, s')"
      by simp
    from alloc_buffer_return_trace [OF this] show ?thesis
    proof
      assume "trace s' = trace s1"
      with ev show ?thesis
        by (intro none [of ev]) auto
    next
      assume "\<exists>p. trace s' = trace s1 @ [(Getpid, p)]"
      then obtain p where "trace s' = trace s1 @ [(Getpid, p)]" ..
      with ev show ?thesis
        by (intro none [of "ev @ [(Getpid, p)]"]) auto
    qed
  qed
qed

text \<open>
  C6: in every call of \<open>gralloc_alloc_buffer\<close> in which an allocator returned an extent
  (an offset that is not negative) and a step after it failed (opening the second
  descriptor, connecting it to the master descriptor, or mapping the extent returned a
  negative value), the calls end with \<^verbatim>\<open>close\<close> on the second descriptor and
  \<^verbatim>\<open>deallocate\<close> of that offset on the same allocator. The error returned is negative and
  no handle is stored.
\<close>

theorem pool_failure_unwinds:
  assumes "posix K" and "context_bufferType dev \<noteq> BUFFER_TYPE_FB"
    and "gralloc_alloc_buffer P K dev len usage s = (err, stored, s')"
    and "trace s' = trace s @ new"
    and "(Allocate a n, off) \<in> set new" and "0 \<le>s off"
    and "(c, r) \<in> set new" and "pool_step c" and "r <s 0"
  shows "err <s 0 \<and> stored = None
         \<and> (\<exists>before path fd0 mid r1 r2.
               new = before @ [(Allocate a n, off), (Open path, fd0)] @ mid
                     @ [(Close fd0, r1), (Deallocate a off, r2)])"
proof -
  from assms have "err \<noteq> 0"
    by (rule failed_step_is_error)
  with assms(1-6) show ?thesis
    by (rule error_unwinds)
qed

theorem pool_failure_unwinds_witness:
  "posix (failing is_Ioctl_PMEM_MAP) \<and> context_bufferType gpu1_device \<noteq> BUFFER_TYPE_FB
   \<and> gralloc_alloc_buffer android_arm (failing is_Ioctl_PMEM_MAP) gpu1_device 4096 0x100 initial
       = (- 1, None,
          \<lparr>module = HAL_MODULE_INFO_SYM\<lparr>pmem_master := 3, pmem_master_base := 0x40000000\<rparr>,
           errno = 0, trace = unwound_events\<rparr>)
   \<and> (Allocate sAllocator 4096, 0x2000) \<in> set unwound_events \<and> (0 :: word32) \<le>s 0x2000
   \<and> (Ioctl_PMEM_MAP 6 0x2000 4096, - 1) \<in> set unwound_events
   \<and> pool_step (Ioctl_PMEM_MAP 6 0x2000 4096) \<and> (- 1 :: word32) <s 0
   \<and> (\<exists>before path fd0 mid r1 r2.
         unwound_events = before @ [(Allocate sAllocator 4096, 0x2000), (Open path, fd0)] @ mid
                          @ [(Close fd0, r1), (Deallocate sAllocator 0x2000, r2)])"
proof -
  let ?s' = "\<lparr>module = HAL_MODULE_INFO_SYM\<lparr>pmem_master := 3, pmem_master_base := 0x40000000\<rparr>,
             errno = 0, trace = unwound_events\<rparr>"
  have h1: "posix (failing is_Ioctl_PMEM_MAP)"
    by (rule posix_failing)
  have h2: "context_bufferType gpu1_device \<noteq> BUFFER_TYPE_FB"
    by (simp add: gpu1_device_def)
  have h3: "gralloc_alloc_buffer android_arm (failing is_Ioctl_PMEM_MAP) gpu1_device 4096 0x100
              initial = (- 1, None, ?s')"
    by (simp add: run_simps unwound_events_def)
  have h4: "trace ?s' = trace initial @ unwound_events"
    by (simp add: initial_def)
  have h5: "(Allocate sAllocator 4096, 0x2000) \<in> set unwound_events"
    by (simp add: unwound_events_def)
  have h6: "(0 :: word32) \<le>s 0x2000"
    by (simp add: word_sle_eq)
  have h7: "(Ioctl_PMEM_MAP 6 0x2000 4096, - 1) \<in> set unwound_events"
    by (simp add: unwound_events_def)
  have h8: "pool_step (Ioctl_PMEM_MAP 6 0x2000 4096)"
    by simp
  have h9: "(- 1 :: word32) <s 0"
    by simp
  show ?thesis
    using h1 h2 h3 h5 h6 h7 h8 pool_failure_unwinds [OF h1 h2 h3 h4 h5 h6 h7 h8 h9]
    by simp
qed

subsection \<open>When the pool cannot be opened\<close>

lemma open_master_no_Ashmem:
  assumes "open_master K type s = (e, m, s1)"
  shows "\<exists>ev. trace s1 = trace s @ ev \<and> (\<forall>x\<in>set ev. \<not> is_Ashmem_create_region (fst x))"
proof -
  have "\<not> is_Ashmem_create_region c" if "init_call c" for c
    using that by (cases c) simp_all
  with open_master_trace [OF assms] show ?thesis
    by blast
qed

lemma pool_usage:
  fixes usage :: word32
  assumes "usage AND (a OR b OR c) \<noteq> 0"
  shows "usage AND (a OR b) \<noteq> 0 \<or> usage AND c \<noteq> 0"
proof (rule ccontr)
  assume "\<not> ?thesis"
  then have "usage AND (a OR b) = 0" "usage AND c = 0"
    by simp_all
  then have "usage AND (a OR b OR c) = 0"
    by (simp add: bit.conj_disj_distrib)
  with assms show False
    by simp
qed

text \<open>
  C1, as the code has it. The request targets a pool (its usage has one of the bits
  \<^verbatim>\<open>HW_2D\<close>, \<^verbatim>\<open>HW_RENDER\<close>, \<^verbatim>\<open>HW_TEXTURE\<close>) and the master descriptor of the pool is
  still negative after the attempt to open it. When the usage lacks \<^verbatim>\<open>HW_2D\<close>, the request
  is retried once as anonymous shared memory with the flags cleared and returns what that
  allocation returns: success with a handle on the new region whenever the region is
  created. When the usage has \<^verbatim>\<open>HW_2D\<close>, the request fails with the negative error of
  the initialisation, stores no handle and creates no region. \<^verbatim>\<open>HW_RENDER\<close> alone is not
  strict.
\<close>

theorem pool_unavailable_policy:
  assumes "usage AND (GRALLOC_USAGE_HW_2D P OR GRALLOC_USAGE_HW_RENDER P
                      OR GRALLOC_USAGE_HW_TEXTURE P) \<noteq> 0"
    and "type = snd (choose_backing P K dev usage s)"
    and "open_master K type s = (err0, master_fd, s1)"
    and "master_fd <s 0"
  shows "(usage AND GRALLOC_USAGE_HW_2D P = 0 \<longrightarrow>
            gralloc_alloc_buffer P K dev len usage s
            = try_ashmem P K (roundUpToPageSize P len) 0 type s1)
         \<and> (usage AND GRALLOC_USAGE_HW_2D P = 0
             \<and> syscall K (Ashmem_create_region ''Buffer'' (roundUpToPageSize P len)) s1 = (fd0, s2)
             \<and> 0 \<le>s fd0 \<longrightarrow>
            (\<exists>hnd s'. gralloc_alloc_buffer P K dev len usage s = (0, Some hnd, s')
                      \<and> fd hnd = fd0 \<and> flags hnd = 0 \<and> validate P (Some hnd) = 0))
         \<and> (usage AND GRALLOC_USAGE_HW_2D P \<noteq> 0 \<and> posix K
             \<and> context_bufferType dev \<noteq> BUFFER_TYPE_FB
             \<and> master_fd_of type (module s) = - 1 \<longrightarrow>
            gralloc_alloc_buffer P K dev len usage s = (err0, None, s1) \<and> err0 <s 0
            \<and> (\<exists>ev. trace s1 = trace s @ ev
                     \<and> (\<forall>x\<in>set ev. \<not> is_Ashmem_create_region (fst x))))"
proof -
  from assms(1) have "usage AND (GRALLOC_USAGE_HW_2D P OR GRALLOC_USAGE_HW_RENDER P) \<noteq> 0
      \<or> usage AND GRALLOC_USAGE_HW_TEXTURE P \<noteq> 0"
    by (rule pool_usage)
  with assms(2) have cb: "choose_backing P K dev usage s = (PRIV_FLAGS_USES_PMEM, type)"
    by (auto simp: choose_backing_def)
  have pmem: "PRIV_FLAGS_USES_PMEM \<noteq> 0"
    by (simp add: PRIV_FLAGS_USES_PMEM_def)
  from assms(4) have neg: "\<not> 0 \<le>s master_fd"
    by (simp add: signed.not_le)
  have fallback: "gralloc_alloc_buffer P K dev len usage s
            = try_ashmem P K (roundUpToPageSize P len) 0 type s1"
    if "usage AND GRALLOC_USAGE_HW_2D P = 0"
    using cb
  proof (cases rule: gralloc_alloc_buffer_cases [where len = len])
    case (fallback e m sa)
    with assms(3) show ?thesis
      by simp
  qed (use pmem assms(3) neg that in auto)
  have strict: "gralloc_alloc_buffer P K dev len usage s
            = alloc_buffer_return P K err0 (- 1) (roundUpToPageSize P len) PRIV_FLAGS_USES_PMEM
                type 0 0 0 s1"
    if "usage AND GRALLOC_USAGE_HW_2D P \<noteq> 0"
    using cb
  proof (cases rule: gralloc_alloc_buffer_cases [where len = len])
    case (strict e m sa)
    with assms(3) show ?thesis
      by simp
  qed (use pmem assms(3) neg that in auto)
  have anonymous: "\<exists>hnd s'. gralloc_alloc_buffer P K dev len usage s = (0, Some hnd, s')
                      \<and> fd hnd = fd0 \<and> flags hnd = 0 \<and> validate P (Some hnd) = 0"
    if a: "usage AND GRALLOC_USAGE_HW_2D P = 0
             \<and> syscall K (Ashmem_create_region ''Buffer'' (roundUpToPageSize P len)) s1 = (fd0, s2)
             \<and> 0 \<le>s fd0"
  proof -
    from a have sc: "syscall K (Ashmem_create_region ''Buffer'' (roundUpToPageSize P len)) s1
                   = (fd0, s2)"
      and ok: "\<not> fd0 <s 0"
      by (simp_all add: signed.not_less)
    obtain p s3 where g: "syscall K Getpid s2 = (p, s3)"
      by fastforce
    from a have "gralloc_alloc_buffer P K dev len usage s
        = try_ashmem P K (roundUpToPageSize P len) 0 type s1"
      by (intro fallback) simp
    with ok show ?thesis
      by (simp add: try_ashmem_eq [OF sc] alloc_buffer_return_success [OF g]
          new_private_handle_t_def validate_def)
  qed
  have refused: "gralloc_alloc_buffer P K dev len usage s = (err0, None, s1) \<and> err0 <s 0
            \<and> (\<exists>ev. trace s1 = trace s @ ev
                     \<and> (\<forall>x\<in>set ev. \<not> is_Ashmem_create_region (fst x)))"
    if a: "usage AND GRALLOC_USAGE_HW_2D P \<noteq> 0 \<and> posix K
             \<and> context_bufferType dev \<noteq> BUFFER_TYPE_FB
             \<and> master_fd_of type (module s) = - 1"
  proof -
    from a cb have "type \<noteq> BUFFER_TYPE_FB"
      by (auto dest: choose_backing_pool)
    with a assms(3,4) have e: "err0 <s 0"
      by (auto dest: open_master_negative)
    then have "err0 \<noteq> 0"
      by auto
    with a strict have "gralloc_alloc_buffer P K dev len usage s = (err0, None, s1)"
      by (simp add: alloc_buffer_return_error)
    with e open_master_no_Ashmem [OF assms(3)] show ?thesis
      by simp
  qed
  from fallback anonymous refused show ?thesis
    by blast
qed

theorem pool_unavailable_policy_witness:
  "0x400 AND (GRALLOC_USAGE_HW_2D android_arm OR GRALLOC_USAGE_HW_RENDER android_arm
              OR GRALLOC_USAGE_HW_TEXTURE android_arm) \<noteq> 0
   \<and> open_master (failing is_Open) BUFFER_TYPE_GPU1 initial
       = (- 19, - 1, initial\<lparr>errno := 19, trace := [(Open ''/dev/pmem_gpu1'', - 1)]\<rparr>)
   \<and> (- 1 :: word32) <s 0 \<and> 0x400 AND GRALLOC_USAGE_HW_2D android_arm \<noteq> 0
   \<and> posix (failing is_Open) \<and> context_bufferType gpu1_device \<noteq> BUFFER_TYPE_FB
   \<and> master_fd_of BUFFER_TYPE_GPU1 (module initial) = - 1
   \<and> gralloc_alloc_buffer android_arm (failing is_Open) gpu1_device 4096 0x400 initial
       = (- 19, None, initial\<lparr>errno := 19, trace := [(Open ''/dev/pmem_gpu1'', - 1)]\<rparr>)
   \<and> 0x100 AND (GRALLOC_USAGE_HW_2D android_arm OR GRALLOC_USAGE_HW_RENDER android_arm
                OR GRALLOC_USAGE_HW_TEXTURE android_arm) \<noteq> 0
   \<and> open_master (failing is_Open) BUFFER_TYPE_PMEM initial
       = (- 19, - 1, initial\<lparr>errno := 19, trace := [(Open ''/dev/pmem'', - 1)]\<rparr>)
   \<and> 0x100 AND GRALLOC_USAGE_HW_2D android_arm = 0
   \<and> gralloc_alloc_buffer android_arm (failing is_Open) gpu1_device 4096 0x100 initial
       = (0, Some (new_private_handle_t android_arm 4 4096 0 BUFFER_TYPE_PMEM 1000),
          initial\<lparr>trace := [(Open ''/dev/pmem'', - 1),
                             (Ashmem_create_region ''Buffer'' 4096, 4), (Getpid, 1000)]\<rparr>)"
proof -
  let ?K = "failing is_Open"
  let ?s1 = "initial\<lparr>errno := 19, trace := [(Open ''/dev/pmem_gpu1'', - 1)]\<rparr>"
  let ?t1 = "initial\<lparr>errno := 19, trace := [(Open ''/dev/pmem'', - 1)]\<rparr>"
  have a1: "0x400 AND (GRALLOC_USAGE_HW_2D android_arm OR GRALLOC_USAGE_HW_RENDER android_arm
              OR GRALLOC_USAGE_HW_TEXTURE android_arm) \<noteq> 0"
    by (simp add: android_arm_def)
  have a2: "BUFFER_TYPE_GPU1 = snd (choose_backing android_arm ?K gpu1_device 0x400 initial)"
    by (simp add: run_simps)
  have a3: "open_master ?K BUFFER_TYPE_GPU1 initial = (- 19, - 1, ?s1)"
    by (simp add: run_simps)
  have a4: "(- 1 :: word32) <s 0"
    by simp
  have a5: "0x400 AND GRALLOC_USAGE_HW_2D android_arm \<noteq> 0"
    "context_bufferType gpu1_device \<noteq> BUFFER_TYPE_FB"
    "master_fd_of BUFFER_TYPE_GPU1 (module initial) = - 1"
    by (simp_all add: run_simps)
  have a6: "posix ?K"
    by (rule posix_failing)
  have b1: "0x100 AND (GRALLOC_USAGE_HW_2D android_arm OR GRALLOC_USAGE_HW_RENDER android_arm
              OR GRALLOC_USAGE_HW_TEXTURE android_arm) \<noteq> 0"
    by (simp add: android_arm_def)
  have b2: "BUFFER_TYPE_PMEM = snd (choose_backing android_arm ?K gpu1_device 0x100 initial)"
    by (simp add: run_simps)
  have b3: "open_master ?K BUFFER_TYPE_PMEM initial = (- 19, - 1, ?t1)"
    by (simp add: run_simps)
  have b5: "0x100 AND GRALLOC_USAGE_HW_2D android_arm = 0"
    by (simp add: android_arm_def)
  have b6: "try_ashmem android_arm ?K (roundUpToPageSize android_arm 4096) 0 BUFFER_TYPE_PMEM ?t1
            = (0, Some (new_private_handle_t android_arm 4 4096 0 BUFFER_TYPE_PMEM 1000),
               initial\<lparr>trace := [(Open ''/dev/pmem'', - 1),
                                  (Ashmem_create_region ''Buffer'' 4096, 4), (Getpid, 1000)]\<rparr>)"
    by (simp add: run_simps)
  show ?thesis
    using a1 a3 a4 a5 a6 b1 b3 b5 b6
      pool_unavailable_policy [OF a1 a2 a3 a4, of 4096]
      pool_unavailable_policy [OF b1 b2 b3 a4, of 4096]
    by simp
qed

text \<open>
  Two runs that C1 excludes, from the initial state on a kernel where no device opens.
  With the usage \<^verbatim>\<open>HW_RENDER\<close> alone the request falls back to anonymous shared memory
  and succeeds. With texture usage on a kernel where no region can be created either, the
  request fails with the error of the region.
\<close>

theorem render_target_counterexample:
  "gralloc_alloc_buffer android_arm (failing is_Open) gpu1_device 4096
     (GRALLOC_USAGE_HW_RENDER android_arm) initial
   = (0, Some (new_private_handle_t android_arm 4 4096 0 BUFFER_TYPE_GPU1 1000),
      initial\<lparr>trace := [(Open ''/dev/pmem_gpu1'', - 1),
                         (Ashmem_create_region ''Buffer'' 4096, 4), (Getpid, 1000)]\<rparr>)
   \<and> gralloc_alloc_buffer android_arm
        (failing (\<lambda>c. is_Open c \<or> is_Ashmem_create_region c)) gpu1_device 4096
        (GRALLOC_USAGE_HW_TEXTURE android_arm) initial
     = (- 19, None,
        initial\<lparr>errno := 19,
                trace := [(Open ''/dev/pmem'', - 1),
                          (Ashmem_create_region ''Buffer'' 4096, - 1)]\<rparr>)"
  by (simp add: run_simps)

subsection \<open>The slots of the framebuffer\<close>

lemma unat_of_nat_small:
  assumes "k < 32"
  shows "unat (of_nat k :: word32) = k"
proof -
  from assms have "k < 2 ^ 32"
    by (rule less_trans) simp
  then show ?thesis
    by (simp add: unat_of_nat)
qed

lemma slot_less:
  fixes n :: word32
  assumes "k < unat n" and "n < 32"
  shows "k < 32" and "(of_nat k :: word32) < n"
proof -
  from assms(2) have "unat n < 32"
    by (simp add: word_less_nat_alt)
  with assms(1) show k: "k < 32"
    by simp
  with assms(1) show "(of_nat k :: word32) < n"
    by (simp add: word_less_nat_alt unat_of_nat_small)
qed

lemma find_free_slot_lowest:
  fixes n :: word32
  assumes "k < unat n" and "n < 32" and "\<not> bit bm k"
    and "\<forall>j. i \<le> j \<and> j < k \<longrightarrow> bit bm j" and "i \<le> k"
  shows "find_free_slot bm n bs (of_nat i) m v
         = (m OR 2 ^ k, v + of_nat (k - i) * bs)"
  using assms(4,5)
proof (induction "k - i" arbitrary: i v)
  case 0
  then have "i = k"
    by simp
  with assms(1,2,3) show ?case
    by (subst find_free_slot.simps)
      (simp add: slot_less unat_of_nat_small and_exp_eq_0_iff_not_bit)
next
  case (Suc d)
  then have less: "i < k" and d: "d = k - Suc i"
    by simp_all
  with Suc.prems have set: "bit bm i"
    by simp
  from less assms(1) have i: "i < unat n"
    by simp
  from Suc.prems less have "\<forall>j. Suc i \<le> j \<and> j < k \<longrightarrow> bit bm j" "Suc i \<le> k"
    by simp_all
  with Suc.hyps(1) [OF d] have
    "find_free_slot bm n bs (of_nat (Suc i)) m (v + bs)
     = (m OR 2 ^ k, v + bs + of_nat (k - Suc i) * bs)"
    by simp
  moreover have "(of_nat (k - i) :: word32) = of_nat (k - Suc i) + 1"
  proof -
    from less have "k - i = Suc (k - Suc i)"
      by simp
    then have "(of_nat (k - i) :: word32) = of_nat (Suc (k - Suc i))"
      by (rule arg_cong)
    then show ?thesis
      by simp
  qed
  ultimately show ?case
    using set i assms(2)
    by (subst find_free_slot.simps)
      (simp add: slot_less unat_of_nat_small and_exp_eq_0_iff_not_bit algebra_simps)
qed

lemma mask_le_all_bits:
  fixes bm :: word32
  assumes "\<forall>j<k. bit bm j"
  shows "2 ^ k - 1 \<le> bm"
proof -
  have "bm AND mask k = mask k"
    using assms by (intro bit_word_eqI) (auto simp: bit_simps)
  then have "mask k \<le> bm"
    by (metis word_and_le2)
  then show ?thesis
    by (simp add: mask_eq_exp_minus_1)
qed

lemma not_full:
  fixes bm :: word32
  assumes "\<forall>j. bit bm j \<longrightarrow> j < k" and "i < k" and "\<not> bit bm i" and "k \<le> 32"
  shows "\<not> 2 ^ k - 1 \<le> bm"
proof
  assume "2 ^ k - 1 \<le> bm"
  then have le: "mask k \<le> bm"
    by (simp add: mask_eq_exp_minus_1)
  have "bm AND mask k = bm"
    using assms(1) by (intro bit_word_eqI) (auto simp: bit_simps)
  then have "bm \<le> mask k"
    by (metis word_and_le1)
  with le have "bm = mask k"
    by simp
  with assms(2,3,4) show False
    by (simp add: bit_simps)
qed

lemma slot_index:
  fixes bs :: word32
  assumes "bs \<noteq> 0" and "k * unat bs < 2 ^ 32" and "k < 32"
  shows "(a + of_nat k * bs - a) div bs = of_nat k"
proof -
  from assms(1) have "0 < bs"
    by (simp add: word_neq_0_conv)
  moreover from assms(2,3) have "unat (of_nat k :: word32) * unat bs < 2 ^ LENGTH(32)"
    by (simp add: unat_of_nat_small)
  ultimately have "(of_nat k :: word32) * bs div bs = of_nat k"
    by (rule word_div_mult)
  then show ?thesis
    by simp
qed

lemma ensure_mapped_mapped:
  assumes "framebuffer (module s) = Some fb"
  shows "ensure_mapped K s = (0, s)"
  using assms by (simp add: ensure_mapped_def)

lemma scanout_full:
  assumes "framebuffer (module s) = Some fb" and "numBuffers (module s) \<noteq> 1"
    and "numBuffers (module s) < 32"
    and "2 ^ unat (numBuffers (module s)) - 1 \<le> bufferMask (module s)"
  shows "gralloc_alloc_framebuffer P K dev len usage s = Some (- ENOMEM P, None, s)"
  using ensure_mapped_mapped [OF assms(1), where K = K]
proof (cases rule: gralloc_alloc_framebuffer_cases [where P = P and dev = dev and len = len
      and usage = usage])
  case full
  then show ?thesis
    by simp
qed (use assms in auto)

lemma scanout_slot:
  assumes "framebuffer (module s) = Some fb" and "numBuffers (module s) \<noteq> 1"
    and "numBuffers (module s) < 32"
    and "\<forall>j. bit (bufferMask (module s)) j \<longrightarrow> j < unat (numBuffers (module s))"
    and "i < unat (numBuffers (module s))" and "\<not> bit (bufferMask (module s)) i"
    and "\<forall>j<i. bit (bufferMask (module s)) j"
  shows "\<exists>hnd s'. gralloc_alloc_framebuffer P K dev len usage s = Some (0, Some hnd, s')
           \<and> module s' = (module s)\<lparr>bufferMask := bufferMask (module s) OR 2 ^ i\<rparr>
           \<and> base hnd = base fb + of_nat i * (finfo_line_length (module s) * info_yres (module s))
           \<and> flags hnd = PRIV_FLAGS_USES_PMEM OR PRIV_FLAGS_FRAMEBUFFER
           \<and> validate P (Some hnd) = 0"
proof -
  let ?n = "numBuffers (module s)" and ?bm = "bufferMask (module s)"
  let ?bs = "finfo_line_length (module s) * info_yres (module s)"
  from assms(3) have n: "unat ?n \<le> 32"
    by (simp add: word_less_nat_alt)
  have free: "\<not> 2 ^ unat ?n - 1 \<le> ?bm"
    using assms(4,5,6) n by (rule not_full)
  have "find_free_slot ?bm ?n ?bs (of_nat 0) ?bm (base fb)
        = (?bm OR 2 ^ i, base fb + of_nat (i - 0) * ?bs)"
    using assms(5,3,6) assms(7) by (intro find_free_slot_lowest) simp_all
  then have loop: "find_free_slot ?bm ?n ?bs 0 ?bm (base fb) = (?bm OR 2 ^ i, base fb + of_nat i * ?bs)"
    by simp
  from ensure_mapped_mapped [OF assms(1), where K = K] show ?thesis
  proof (cases rule: gralloc_alloc_framebuffer_cases [where P = P and dev = dev and len = len
        and usage = usage])
    case (slot fb1 fd0 s1 p s2)
    with assms(1) have "fb1 = fb"
      by simp
    with slot(7) loop show ?thesis
      by (simp add: new_private_handle_t_def validate_def)
  qed (use assms free in auto)
qed

lemma scanout_free:
  assumes "validate P (Some hnd) = 0" and "flags hnd AND PRIV_FLAGS_FRAMEBUFFER \<noteq> 0"
    and "framebuffer (module s) = Some fb"
    and "finfo_line_length (module s) * info_yres (module s) \<noteq> 0"
    and "base hnd = base fb + of_nat i * (finfo_line_length (module s) * info_yres (module s))"
    and "i < 32"
    and "i * unat (finfo_line_length (module s) * info_yres (module s)) < 2 ^ 32"
  shows "\<exists>s'. gralloc_free P K (Some hnd) s = Some (0, Some Released, s')
           \<and> module s' = (module s)\<lparr>bufferMask := bufferMask (module s) AND NOT (2 ^ i)\<rparr>"
proof -
  let ?bs = "finfo_line_length (module s) * info_yres (module s)"
  let ?s1 = "s\<lparr>module := (module s)\<lparr>bufferMask := bufferMask (module s) AND NOT (2 ^ i)\<rparr>\<rparr>"
  have index: "(base hnd - base fb) div ?bs = of_nat i"
    unfolding assms(5) using assms(4,7,6) by (rule slot_index)
  from assms(6) have small: "\<not> (32 :: word32) \<le> of_nat i"
    by (simp add: word_le_nat_alt unat_of_nat_small)
  obtain r3 s3 where c3: "syscall K (Unregister_buffer hnd) ?s1 = (r3, s3)"
    by fastforce
  obtain r4 s4 where c4: "syscall K (Close (fd hnd)) s3 = (r4, s4)"
    by fastforce
  have "gralloc_free P K (Some hnd) s = Some (0, Some Released, s4)"
    using assms(1,2,3,4,6) index small c3 c4
    by (simp add: gralloc_free_def Let_def delete_private_handle_t_def unat_of_nat_small)
  moreover have "module s4 = module ?s1"
    using syscall_state(2) [OF c3] syscall_state(2) [OF c4] by simp
  ultimately show ?thesis
    by simp
qed

lemma bit_3: "bit (3 :: word32) j \<longleftrightarrow> j < 2"
proof -
  have "bit (mask 2 :: word32) j \<longleftrightarrow> j < 2"
    by (auto simp: bit_simps)
  then show ?thesis
    by (simp add: mask_eq_exp_minus_1)
qed

text \<open>
  C7: the surface is mapped and has more than one buffer (\<open>n\<close> of them, fewer than 32,
  and the mask uses no bit beyond the \<open>n\<close> slots). If all \<open>n\<close> bits of the mask are set,
  \<open>gralloc_alloc_framebuffer\<close> fails with \<^verbatim>\<open>-ENOMEM\<close> and changes nothing. Otherwise it
  sets the lowest unset bit \<open>i\<close> and returns a handle whose base is the base of the
  surface plus \<open>i\<close> times the size of a buffer. Freeing the handle of slot \<open>i\<close> clears
  bit \<open>i\<close> and no other; when all slots were taken, exactly one more allocation then
  succeeds, on the slot that was freed, and the one after it fails.
\<close>

theorem scanout_slot_allocator:
  fixes n bm bs :: word32
  assumes "framebuffer (module s) = Some fb"
    and "n = numBuffers (module s)" and "1 < n" and "n < 32"
    and "bm = bufferMask (module s)" and "\<forall>j. bit bm j \<longrightarrow> j < unat n"
    and "bs = finfo_line_length (module s) * info_yres (module s)"
  shows "((\<forall>j<unat n. bit bm j) \<longrightarrow>
            gralloc_alloc_framebuffer P K dev len usage s = Some (- ENOMEM P, None, s))
         \<and> ((\<exists>j<unat n. \<not> bit bm j) \<longrightarrow>
            (\<exists>i hnd s'. i < unat n \<and> \<not> bit bm i \<and> (\<forall>j<i. bit bm j)
               \<and> gralloc_alloc_framebuffer P K dev len usage s = Some (0, Some hnd, s')
               \<and> module s' = (module s)\<lparr>bufferMask := bm OR 2 ^ i\<rparr>
               \<and> base hnd = base fb + of_nat i * bs
               \<and> flags hnd AND PRIV_FLAGS_FRAMEBUFFER \<noteq> 0))
         \<and> (validate P (Some slot) = 0 \<and> flags slot AND PRIV_FLAGS_FRAMEBUFFER \<noteq> 0
             \<and> i < unat n \<and> base slot = base fb + of_nat i * bs
             \<and> bs \<noteq> 0 \<and> unat n * unat bs < 2 ^ 32 \<longrightarrow>
            (\<exists>s1. gralloc_free P K (Some slot) s = Some (0, Some Released, s1)
               \<and> module s1 = (module s)\<lparr>bufferMask := bm AND NOT (2 ^ i)\<rparr>
               \<and> ((\<forall>j<unat n. bit bm j) \<longrightarrow>
                  (\<exists>hnd s2. gralloc_alloc_framebuffer P K dev len usage s1
                              = Some (0, Some hnd, s2)
                     \<and> base hnd = base slot \<and> bufferMask (module s2) = bm
                     \<and> gralloc_alloc_framebuffer P K dev len usage s2
                         = Some (- ENOMEM P, None, s2)))))
         \<and> (0 <s ENOMEM P \<longrightarrow> - ENOMEM P <s 0)"
proof -
  from assms(3) have n1: "numBuffers (module s) \<noteq> 1"
    unfolding assms(2) by auto
  from assms(4) have n32: "numBuffers (module s) < 32"
    unfolding assms(2) .
  from assms(4) have un: "unat n < 32"
    by (simp add: word_less_nat_alt)
  have full: "gralloc_alloc_framebuffer P K dev len usage s = Some (- ENOMEM P, None, s)"
    if "\<forall>j<unat n. bit bm j"
  proof -
    from that have "2 ^ unat n - 1 \<le> bm"
      by (rule mask_le_all_bits)
    with assms(1) n1 n32 show ?thesis
      unfolding assms(2,5) by (rule scanout_full)
  qed
  have slot: "\<exists>i hnd s'. i < unat n \<and> \<not> bit bm i \<and> (\<forall>j<i. bit bm j)
               \<and> gralloc_alloc_framebuffer P K dev len usage s = Some (0, Some hnd, s')
               \<and> module s' = (module s)\<lparr>bufferMask := bm OR 2 ^ i\<rparr>
               \<and> base hnd = base fb + of_nat i * bs
               \<and> flags hnd AND PRIV_FLAGS_FRAMEBUFFER \<noteq> 0"
    if "\<exists>j<unat n. \<not> bit bm j"
  proof -
    define i where "i = (LEAST j. \<not> bit bm j)"
    from that obtain j where j: "j < unat n" "\<not> bit bm j"
      by blast
    then have unset: "\<not> bit bm i"
      unfolding i_def by (metis (mono_tags, lifting) LeastI)
    from j have "i \<le> j"
      unfolding i_def by (simp add: Least_le)
    with j have i: "i < unat n"
      by simp
    have below: "\<forall>j<i. bit bm j"
      unfolding i_def using not_less_Least by blast
    from scanout_slot [OF assms(1) n1 n32 assms(6) [unfolded assms(2,5)]
        i [unfolded assms(2)] unset [unfolded assms(5)] below [unfolded assms(5)],
        of P K dev len usage]
    obtain hnd s' where
      "gralloc_alloc_framebuffer P K dev len usage s = Some (0, Some hnd, s')"
      "module s' = (module s)\<lparr>bufferMask := bm OR 2 ^ i\<rparr>"
      "base hnd = base fb + of_nat i * bs"
      "flags hnd = PRIV_FLAGS_USES_PMEM OR PRIV_FLAGS_FRAMEBUFFER"
      unfolding assms(5,7) by blast
    with i unset below show ?thesis
      by (intro exI [of _ i] exI [of _ hnd] exI [of _ s'])
        (simp add: PRIV_FLAGS_USES_PMEM_def PRIV_FLAGS_FRAMEBUFFER_def)
  qed
  have release: "\<exists>s1. gralloc_free P K (Some slot) s = Some (0, Some Released, s1)
               \<and> module s1 = (module s)\<lparr>bufferMask := bm AND NOT (2 ^ i)\<rparr>
               \<and> ((\<forall>j<unat n. bit bm j) \<longrightarrow>
                  (\<exists>hnd s2. gralloc_alloc_framebuffer P K dev len usage s1
                              = Some (0, Some hnd, s2)
                     \<and> base hnd = base slot \<and> bufferMask (module s2) = bm
                     \<and> gralloc_alloc_framebuffer P K dev len usage s2
                         = Some (- ENOMEM P, None, s2)))"
    if a: "validate P (Some slot) = 0 \<and> flags slot AND PRIV_FLAGS_FRAMEBUFFER \<noteq> 0
             \<and> i < unat n \<and> base slot = base fb + of_nat i * bs
             \<and> bs \<noteq> 0 \<and> unat n * unat bs < 2 ^ 32"
  proof -
    from a have i: "i < unat n" and bs: "bs \<noteq> 0" and fits: "unat n * unat bs < 2 ^ 32"
      and slot_base: "base slot = base fb + of_nat i * bs"
      by simp_all
    from i un have i32: "i < 32"
      by simp
    from i have "i * unat bs \<le> unat n * unat bs"
      by (intro mult_le_mono1) simp
    from this fits have "i * unat bs < 2 ^ 32"
      by (rule le_less_trans)
    with a i32 scanout_free [of P slot s fb i K] assms(1) obtain s1 where
      free: "gralloc_free P K (Some slot) s = Some (0, Some Released, s1)"
      and m1: "module s1 = (module s)\<lparr>bufferMask := bm AND NOT (2 ^ i)\<rparr>"
      unfolding assms(5,7) by blast
    have again: "\<exists>hnd s2. gralloc_alloc_framebuffer P K dev len usage s1
                              = Some (0, Some hnd, s2)
                     \<and> base hnd = base slot \<and> bufferMask (module s2) = bm
                     \<and> gralloc_alloc_framebuffer P K dev len usage s2
                         = Some (- ENOMEM P, None, s2)"
      if all: "\<forall>j<unat n. bit bm j"
    proof -
      let ?bm1 = "bm AND NOT (2 ^ i)"
      have f1: "framebuffer (module s1) = Some fb" "numBuffers (module s1) \<noteq> 1"
        "numBuffers (module s1) < 32"
        using m1 assms(1) n1 n32 by simp_all
      have inv1: "\<forall>j. bit (bufferMask (module s1)) j \<longrightarrow> j < unat (numBuffers (module s1))"
        using m1 assms(6) by (simp add: bit_simps assms(2))
      have i1: "i < unat (numBuffers (module s1))"
        using m1 i by (simp add: assms(2))
      have unset1: "\<not> bit (bufferMask (module s1)) i"
        using m1 i32 by (simp add: bit_simps)
      have below1: "\<forall>j<i. bit (bufferMask (module s1)) j"
        using m1 all i i32 by (auto simp: bit_simps)
      from scanout_slot [OF f1 inv1 i1 unset1 below1, of P K dev len usage]
      obtain hnd s2 where
        alloc: "gralloc_alloc_framebuffer P K dev len usage s1 = Some (0, Some hnd, s2)"
        and m2: "module s2 = (module s1)\<lparr>bufferMask := bufferMask (module s1) OR 2 ^ i\<rparr>"
        and b2: "base hnd = base fb + of_nat i
                   * (finfo_line_length (module s1) * info_yres (module s1))"
        by blast
      have restored: "?bm1 OR 2 ^ i = bm"
        using all i by (intro bit_word_eqI) (auto simp: bit_simps)
      with m1 m2 have bm2: "bufferMask (module s2) = bm"
        by simp
      from m1 m2 f1 have f2: "framebuffer (module s2) = Some fb" "numBuffers (module s2) \<noteq> 1"
        "numBuffers (module s2) < 32"
        by simp_all
      from m1 m2 have n2: "numBuffers (module s2) = n"
        by (simp add: assms(2))
      from all have "2 ^ unat n - 1 \<le> bm"
        by (rule mask_le_all_bits)
      with bm2 n2 have "2 ^ unat (numBuffers (module s2)) - 1 \<le> bufferMask (module s2)"
        by simp
      with f2 have "gralloc_alloc_framebuffer P K dev len usage s2 = Some (- ENOMEM P, None, s2)"
        by (rule scanout_full)
      moreover from b2 m1 slot_base have "base hnd = base slot"
        by (simp add: assms(7))
      ultimately show ?thesis
        using alloc bm2 by blast
    qed
    with free m1 show ?thesis
      by blast
  qed
  from full slot release show ?thesis
    by (simp add: uminus_sless_0)
qed

theorem scanout_slot_allocator_witness:
  "framebuffer (module (two_slots 3)) = Some surface
   \<and> (1 :: word32) < 2 \<and> (2 :: word32) < 32
   \<and> bit (3 :: word32) 0 \<and> bit (3 :: word32) 1 \<and> \<not> bit (3 :: word32) 2
   \<and> gralloc_alloc_framebuffer android_arm working gpu1_device 768000 0x1000 (two_slots 3)
       = Some (- 12, None, two_slots 3)
   \<and> validate android_arm (Some second_slot_handle) = 0
   \<and> flags second_slot_handle AND PRIV_FLAGS_FRAMEBUFFER \<noteq> 0
   \<and> base second_slot_handle = base surface + of_nat 1 * (960 * 800)
   \<and> gralloc_free android_arm working (Some second_slot_handle) (two_slots 3)
       = Some (0, Some Released,
               (two_slots 1)\<lparr>trace := [(Unregister_buffer second_slot_handle, 0),
                                      (Close 4, 0)]\<rparr>)
   \<and> gralloc_alloc_framebuffer android_arm working gpu1_device 768000 0x1000
         ((two_slots 1)\<lparr>trace := [(Unregister_buffer second_slot_handle, 0), (Close 4, 0)]\<rparr>)
       = Some (0, Some (second_slot_handle\<lparr>fd := 5\<rparr>),
               (two_slots 3)\<lparr>trace := [(Unregister_buffer second_slot_handle, 0), (Close 4, 0),
                                      (Dup 3, 5), (Getpid, 1000)]\<rparr>)"
proof -
  have h1: "framebuffer (module (two_slots 3)) = Some surface"
    by (simp add: two_slots_def)
  have h2: "2 = numBuffers (module (two_slots 3))"
    by (simp add: two_slots_def)
  have h3: "(1 :: word32) < 2" "(2 :: word32) < 32"
    by simp_all
  have h5: "3 = bufferMask (module (two_slots 3))"
    by (simp add: two_slots_def)
  have h6: "\<forall>j. bit (3 :: word32) j \<longrightarrow> j < unat (2 :: word32)"
    by (simp only: bit_3) simp
  have h7: "768000 = finfo_line_length (module (two_slots 3)) * info_yres (module (two_slots 3))"
    by (simp add: two_slots_def)
  have full: "\<forall>j<unat (2 :: word32). bit (3 :: word32) j"
    by (simp only: bit_3) simp
  have slot: "validate android_arm (Some second_slot_handle) = 0"
    "flags second_slot_handle AND PRIV_FLAGS_FRAMEBUFFER \<noteq> 0"
    "base second_slot_handle = base surface + of_nat 1 * (960 * 800)"
    by (simp_all add: second_slot_handle_def slot_handle_def run_simps)
  have free: "gralloc_free android_arm working (Some second_slot_handle) (two_slots 3)
       = Some (0, Some Released,
               (two_slots 1)\<lparr>trace := [(Unregister_buffer second_slot_handle, 0),
                                      (Close 4, 0)]\<rparr>)"
    by (simp add: second_slot_handle_def slot_handle_def two_slots_def run_simps
        word_le_nat_alt)
  have again: "gralloc_alloc_framebuffer android_arm working gpu1_device 768000 0x1000
         ((two_slots 1)\<lparr>trace := [(Unregister_buffer second_slot_handle, 0), (Close 4, 0)]\<rparr>)
       = Some (0, Some (second_slot_handle\<lparr>fd := 5\<rparr>),
               (two_slots 3)\<lparr>trace := [(Unregister_buffer second_slot_handle, 0), (Close 4, 0),
                                      (Dup 3, 5), (Getpid, 1000)]\<rparr>)"
    by (simp add: second_slot_handle_def slot_handle_def two_slots_def run_simps
        find_free_slot.simps word_le_nat_alt)
  from scanout_slot_allocator [OF h1 h2 h3 h5 h6 h7, of android_arm working gpu1_device
      768000 "0x1000" second_slot_handle 1] full
  have "gralloc_alloc_framebuffer android_arm working gpu1_device 768000 0x1000 (two_slots 3)
       = Some (- 12, None, two_slots 3)"
    by (simp add: android_arm_def)
  with h1 h3 slot free again show ?thesis
    by (simp add: bit_3)
qed

subsection \<open>Freeing\<close>



text \<open>
  C8 has \<open>validate\<close> report \<^verbatim>\<open>-EINVAL\<close> on the stale handle after a successful free. On
  the working kernel, freeing the handle of the texture buffer returns 0 and leaves the
  storage of the record released: \<open>validate\<close> on the stale pointer reads released
  storage, which is undefined, and does not give \<^verbatim>\<open>-EINVAL\<close>.
\<close>

theorem stale_handle_counterexample:
  "validate android_arm (Some pool_handle) = 0
   \<and> gralloc_free android_arm working (Some pool_handle) after_pool
       = Some (0, Some Released,
               after_pool\<lparr>trace := trace after_pool
                  @ [(Deallocate sAllocator 0x2000, 0), (Memset 0x40002000 16384, 0x40002000),
                     (Unregister_buffer pool_handle, 0), (Close 6, 0)]\<rparr>)
   \<and> validate_memory android_arm (Some Released) = None
   \<and> validate_memory android_arm (Some Released) \<noteq> Some (- EINVAL android_arm)"
  by (simp add: pool_handle_def after_pool_def run_simps)

text \<open>
  C8, as the code has it: the destructor clears the magic, and \<open>validate\<close> returns
  \<^verbatim>\<open>-EINVAL\<close> on an object in the state the destructor leaves it. A successful
  \<open>gralloc_free\<close> of a valid handle returns 0 and has run \<^verbatim>\<open>delete\<close> on the handle, so
  the storage of the record is released and \<open>validate\<close> on the stale pointer is
  undefined.
\<close>

theorem gralloc_free_releases_handle:
  assumes "EINVAL P \<noteq> 0"
    and "validate P (Some hnd) = 0"
    and "gralloc_free P K (Some hnd) s = Some (r, stale, s')"
  shows "magic (destructor_private_handle_t hnd) = 0
         \<and> validate P (Some (destructor_private_handle_t hnd)) = - EINVAL P
         \<and> validate P (Some (destructor_private_handle_t hnd)) \<noteq> 0
         \<and> r = 0 \<and> stale = Some (delete_private_handle_t hnd) \<and> stale = Some Released
         \<and> validate_memory P stale = None"
proof -
  from assms(2) have "\<not> validate P (Some hnd) <s 0"
    by simp
  with assms(3) have "r = 0 \<and> stale = Some (delete_private_handle_t hnd)"
    by (auto simp: gralloc_free_def Let_def split: if_splits option.splits prod.splits)
  with assms(1) show ?thesis
    by (simp add: validate_destructor_private_handle_t validate_memory_def
        delete_private_handle_t_def)
      (simp add: destructor_private_handle_t_def)
qed

theorem gralloc_free_releases_handle_witness:
  "EINVAL android_arm \<noteq> 0
   \<and> validate android_arm (Some pool_handle) = 0
   \<and> gralloc_free android_arm working (Some pool_handle) after_pool
       = Some (0, Some Released,
               after_pool\<lparr>trace := trace after_pool
                  @ [(Deallocate sAllocator 0x2000, 0), (Memset 0x40002000 16384, 0x40002000),
                     (Unregister_buffer pool_handle, 0), (Close 6, 0)]\<rparr>)
   \<and> magic (destructor_private_handle_t pool_handle) = 0
   \<and> validate android_arm (Some (destructor_private_handle_t pool_handle)) = - 22
   \<and> delete_private_handle_t pool_handle = Released
   \<and> validate_memory android_arm (Some (delete_private_handle_t pool_handle)) = None"
proof -
  have h1: "EINVAL android_arm \<noteq> 0"
    by (simp add: android_arm_def)
  have h2: "validate android_arm (Some pool_handle) = 0"
    by (simp add: pool_handle_def run_simps)
  have h3: "gralloc_free android_arm working (Some pool_handle) after_pool
       = Some (0, Some Released,
               after_pool\<lparr>trace := trace after_pool
                  @ [(Deallocate sAllocator 0x2000, 0), (Memset 0x40002000 16384, 0x40002000),
                     (Unregister_buffer pool_handle, 0), (Close 6, 0)]\<rparr>)"
    by (simp add: pool_handle_def after_pool_def run_simps)
  show ?thesis
    using h1 h2 h3 gralloc_free_releases_handle [OF h1 h2 h3]
    by (simp add: android_arm_def)
qed

text \<open>
  C2 is about what \<open>gralloc_free\<close> does with a handle on anonymous shared memory. This is
  what it does with every valid handle that is not a framebuffer handle and has a
  descriptor, whatever its flags: it first calls \<^verbatim>\<open>deallocate\<close> with the offset of the
  handle on one of the two pool allocators, then clears the memory at its base. Where
  the base is null or those bytes are not writable, as for a handle on anonymous shared
  memory that the process has not mapped, the \<^verbatim>\<open>memset\<close> is undefined. Otherwise
  \<open>gralloc_free\<close> goes on to unregister the handle, close the descriptor and delete the
  record.
\<close>

theorem gralloc_free_pool_branch:
  assumes "validate P (Some hnd) = 0" and "flags hnd AND PRIV_FLAGS_FRAMEBUFFER = 0"
    and "0 \<le>s fd hnd"
    and "a = (if bufferType hnd = BUFFER_TYPE_PMEM then sAllocator else sGPUAllocator)"
  shows "\<exists>r1 s1. syscall K (Deallocate a (offset hnd)) s = (r1, s1)
           \<and> trace s1 = trace s @ [(Deallocate a (offset hnd), r1)]
           \<and> (if base hnd = 0 \<or> \<not> writable K (trace s1) (base hnd) (size' hnd)
              then gralloc_free P K (Some hnd) s = None
              else (\<exists>s' r2 r3 r4.
                      gralloc_free P K (Some hnd) s = Some (0, Some Released, s')
                      \<and> module s' = module s
                      \<and> trace s' = trace s
                          @ [(Deallocate a (offset hnd), r1),
                             (Memset (base hnd) (size' hnd), r2),
                             (Unregister_buffer hnd, r3), (Close (fd hnd), r4)]))"
proof -
  obtain r1 s1 where c1: "syscall K (Deallocate a (offset hnd)) s = (r1, s1)"
    by fastforce
  have t1: "trace s1 = trace s @ [(Deallocate a (offset hnd), r1)]"
    using syscall_state(1) [OF c1] by simp
  have pool: "gralloc_free P K (Some hnd) s
      = (case memset K (base hnd) (size' hnd) s1 of
           None \<Rightarrow> None
         | Some s3 \<Rightarrow>
             let (_, s4) = syscall K (Unregister_buffer hnd) s3;
                 (_, s5) = syscall K (Close (fd hnd)) s4
             in Some (0, Some Released, s5))"
    using assms c1
    by (simp add: gralloc_free_def Let_def delete_private_handle_t_def split: option.split)
  show ?thesis
  proof (cases "base hnd = 0 \<or> \<not> writable K (trace s1) (base hnd) (size' hnd)")
    case True
    then have "memset K (base hnd) (size' hnd) s1 = None"
      by (auto simp: memset_def)
    with pool True c1 t1 show ?thesis
      by simp
  next
    case False
    obtain r2 s2 where c2: "syscall K (Memset (base hnd) (size' hnd)) s1 = (r2, s2)"
      by fastforce
    obtain r3 s3 where c3: "syscall K (Unregister_buffer hnd) s2 = (r3, s3)"
      by fastforce
    obtain r4 s4 where c4: "syscall K (Close (fd hnd)) s3 = (r4, s4)"
      by fastforce
    from False c2 have "memset K (base hnd) (size' hnd) s1 = Some s2"
      by (simp add: memset_def)
    with pool c3 c4
    have "gralloc_free P K (Some hnd) s = Some (0, Some Released, s4)"
      by simp
    moreover have "module s4 = module s"
      using syscall_state(2) [OF c1] syscall_state(2) [OF c2] syscall_state(2) [OF c3]
        syscall_state(2) [OF c4] by simp
    moreover have "trace s4 = trace s
                 @ [(Deallocate a (offset hnd), r1), (Memset (base hnd) (size' hnd), r2),
                    (Unregister_buffer hnd, r3), (Close (fd hnd), r4)]"
      using syscall_state(1) [OF c1] syscall_state(1) [OF c2] syscall_state(1) [OF c3]
        syscall_state(1) [OF c4] by simp
    ultimately have "\<exists>s' r2 r3 r4.
                      gralloc_free P K (Some hnd) s = Some (0, Some Released, s')
                      \<and> module s' = module s
                      \<and> trace s' = trace s
                          @ [(Deallocate a (offset hnd), r1),
                             (Memset (base hnd) (size' hnd), r2),
                             (Unregister_buffer hnd, r3), (Close (fd hnd), r4)]"
      by blast
    with False c1 t1 show ?thesis
      by simp
  qed
qed

theorem gralloc_free_pool_branch_witness:
  "validate android_arm (Some ashmem_handle) = 0
   \<and> flags ashmem_handle AND PRIV_FLAGS_FRAMEBUFFER = 0
   \<and> flags ashmem_handle AND PRIV_FLAGS_USES_PMEM = 0
   \<and> 0 \<le>s fd ashmem_handle
   \<and> syscall working (Deallocate sGPUAllocator 0) initial
       = (0, initial\<lparr>trace := [(Deallocate sGPUAllocator 0, 0)]\<rparr>)
   \<and> base ashmem_handle = 0
   \<and> gralloc_free android_arm working (Some ashmem_handle) initial = None
   \<and> validate android_arm (Some mapped_ashmem_handle) = 0
   \<and> flags mapped_ashmem_handle AND PRIV_FLAGS_USES_PMEM = 0
   \<and> (\<exists>s'. gralloc_free android_arm working (Some mapped_ashmem_handle) after_ashmem_mapped
             = Some (0, Some Released, s')
           \<and> trace s' = trace after_ashmem_mapped
               @ [(Deallocate sGPUAllocator 0, 0), (Memset 0x40000000 4096, 0x40000000),
                  (Unregister_buffer mapped_ashmem_handle, 0), (Close 3, 0)])"
proof -
  have h1: "validate android_arm (Some ashmem_handle) = 0"
    "validate android_arm (Some mapped_ashmem_handle) = 0"
    by (simp_all add: mapped_ashmem_handle_def run_simps)
  have h2: "flags ashmem_handle AND PRIV_FLAGS_FRAMEBUFFER = 0"
    "flags mapped_ashmem_handle AND PRIV_FLAGS_FRAMEBUFFER = 0"
    by (simp_all add: mapped_ashmem_handle_def ashmem_handle_def new_private_handle_t_def)
  have h3: "0 \<le>s fd ashmem_handle" "0 \<le>s fd mapped_ashmem_handle"
    by (simp_all add: mapped_ashmem_handle_def ashmem_handle_def new_private_handle_t_def
        word_sle_eq)
  have h4: "sGPUAllocator = (if bufferType ashmem_handle = BUFFER_TYPE_PMEM then sAllocator
                             else sGPUAllocator)"
    "sGPUAllocator = (if bufferType mapped_ashmem_handle = BUFFER_TYPE_PMEM then sAllocator
                      else sGPUAllocator)"
    by (simp_all add: mapped_ashmem_handle_def ashmem_handle_def new_private_handle_t_def)
  have first: "syscall working (Deallocate sGPUAllocator 0) initial
       = (0, initial\<lparr>trace := [(Deallocate sGPUAllocator 0, 0)]\<rparr>)"
    by (simp add: run_simps)
  have run: "gralloc_free android_arm working (Some mapped_ashmem_handle) after_ashmem_mapped
       = Some (0, Some Released,
               after_ashmem_mapped\<lparr>trace := trace after_ashmem_mapped
                  @ [(Deallocate sGPUAllocator 0, 0), (Memset 0x40000000 4096, 0x40000000),
                     (Unregister_buffer mapped_ashmem_handle, 0), (Close 3, 0)]\<rparr>)"
    by (simp add: mapped_ashmem_handle_def after_ashmem_mapped_def run_simps)
  have null: "base ashmem_handle = 0" "flags ashmem_handle AND PRIV_FLAGS_USES_PMEM = 0"
    "flags mapped_ashmem_handle AND PRIV_FLAGS_USES_PMEM = 0"
    by (simp_all add: mapped_ashmem_handle_def ashmem_handle_def new_private_handle_t_def)
  from gralloc_free_pool_branch [OF h1(1) h2(1) h3(1) h4(1), of working initial] null(1)
  have "gralloc_free android_arm working (Some ashmem_handle) initial = None"
    by auto
  moreover from gralloc_free_pool_branch [OF h1(2) h2(2) h3(2) h4(2), of working
      after_ashmem_mapped] run
  have "\<exists>s'. gralloc_free android_arm working (Some mapped_ashmem_handle) after_ashmem_mapped
             = Some (0, Some Released, s')
           \<and> trace s' = trace after_ashmem_mapped
               @ [(Deallocate sGPUAllocator 0, 0), (Memset 0x40000000 4096, 0x40000000),
                  (Unregister_buffer mapped_ashmem_handle, 0), (Close 3, 0)]"
    by simp
  ultimately show ?thesis
    using h1 h2 h3 first null by simp
qed

end
